theory Spec2Isabelle
  imports Main
begin

section \<open>Data model\<close>

text \<open>
  Go's \<open>error\<close> values are modelled by their message; an \<open>error\<close> variable that may be
  \<open>nil\<close> is an \<open>error option\<close>. A \<open>panic\<close> aborts the call: every operation that can
  panic returns \<open>panic + 'a\<close>, with \<open>Inl\<close> for the abort.
\<close>

datatype error = Error string

datatype panic = Panic string

text \<open>\<open>Item{key, value, priority}\<close> as built in \<open>EnvVariableProvider.Items\<close>.\<close>

record Item =
  key :: string
  value' :: string
  priority :: int

text \<open>
  Modelled from the spec: \<open>NewItem\<close> is called by \<open>readItem\<close> and its body is not part of
  the sources; the spec's Item is the key/value/priority triple, so \<open>NewItem\<close> builds it.
\<close>

definition NewItem :: "string \<Rightarrow> string \<Rightarrow> int \<Rightarrow> Item" where
  "NewItem k v p = \<lparr>key = k, value' = v, priority = p\<rparr>"

text \<open>\<open>ItemList{Items: ...}\<close>; \<open>ItemList{}\<close> has no items.\<close>

datatype ItemList = ItemList (Items: "Item list")

text \<open>
  A \<open>Provider\<close> is a Go function value \<open>func() (ItemList, error)\<close>. The closures the
  package itself builds are named by constructor, with the address of the object they are
  bound to; \<open>OtherFn\<close> stands for a function supplied by the application.
\<close>

datatype Provider =
    ErrorFn "error option"
  | InMemoryItems nat
  | EnvVariableItems nat
  | OtherFn nat

text \<open>
  A \<open>chan struct{}\<close>: its capacity and the number of values buffered in it
  (Go's \<open>cap(ch)\<close> and \<open>len(ch)\<close>).
\<close>

record Chan =
  chan_cap :: nat
  chan_len :: nat

record Store =
  providers :: "string \<rightharpoonup> Provider"
  allowProviderOverride :: bool
  watchers :: "Chan list"

text \<open>\<open>EnvVariableProvider\<close>; its embedded \<open>InMemoryProvider\<close> is the item slice.\<close>

record EnvVariableProvider =
  inMemory :: "Item list"
  bindings :: "string \<rightharpoonup> string"
  env_priority :: int

text \<open>
  The goroutine started by \<open>file\<close> when \<open>refresh\<close> is set: the variables its closure
  captures (\<open>filename\<close>, \<open>fn\<close>, \<open>last\<close>, \<open>inmem\<close>, \<open>s\<close>).
\<close>

record Poller =
  poll_filename :: string
  poll_fn :: "(string \<Rightarrow> error + Item list) option"
  poll_last :: int
  poll_inmem :: nat
  poll_store :: nat

text \<open>
  Function values registered as provider factories: the three built-in ones of \<open>init\<close>,
  a factory of the application, or a \<open>nil\<close> function.
\<close>

datatype Factory = File_fn | FileList_fn | FileTree_fn | Custom_fn nat | Nil_fn

text \<open>
  The state of the process: the \<open>Store\<close> objects by address (address 0 is the package
  variable \<open>_store\<close>), the \<open>InMemoryProvider\<close> and \<open>EnvVariableProvider\<close> objects by
  address, the package variable \<open>providerFactories\<close>, the polling goroutines and the
  lines written through \<open>LogInfo\<close>.
\<close>

record World =
  stores :: "nat \<Rightarrow> Store"
  next_store :: nat
  inmems :: "Item list list"
  envprovs :: "EnvVariableProvider list"
  providerFactories :: "string \<rightharpoonup> Factory"
  pollers :: "Poller list"
  logs :: "string list"

definition upd_store :: "nat \<Rightarrow> (Store \<Rightarrow> Store) \<Rightarrow> World \<Rightarrow> World" where
  "upd_store s f w = w\<lparr>stores := (stores w)(s := f (stores w s))\<rparr>"

definition LogInfo :: "string \<Rightarrow> World \<Rightarrow> World" where
  "LogInfo msg w = w\<lparr>logs := logs w @ [msg]\<rparr>"

section \<open>Store: registry\<close>

definition Clear :: "nat \<Rightarrow> World \<Rightarrow> World" where
  "Clear s w = upd_store s (\<lambda>st. st\<lparr>providers := Map.empty, allowProviderOverride := False\<rparr>) w"

definition zero_Store :: Store where
  "zero_Store = \<lparr>providers = Map.empty, allowProviderOverride = False, watchers = []\<rparr>"

definition New :: "World \<Rightarrow> nat \<times> World" where
  "New w =
     (let s = next_store w;
          w1 = w\<lparr>stores := (stores w)(s := zero_Store), next_store := Suc s\<rparr>
      in (s, Clear s w1))"

definition RegisterProvider :: "nat \<Rightarrow> string \<Rightarrow> Provider \<Rightarrow> World \<Rightarrow> panic + World" where
  "RegisterProvider s name f w =
     (let ok = (providers (stores w s) name \<noteq> None) in
      if ok \<and> \<not> allowProviderOverride (stores w s)
      then Inl (Panic (''conflict on configuration provider: '' @ name))
      else Inr (upd_store s (\<lambda>st. st\<lparr>providers := (providers st)(name \<mapsto> f)\<rparr>) w))"

definition AllowProviderOverride :: "nat \<Rightarrow> World \<Rightarrow> World" where
  "AllowProviderOverride s w =
     upd_store s (\<lambda>st. st\<lparr>allowProviderOverride := True\<rparr>)
       (LogInfo ''configstore: ATTENTION: PROVIDER OVERRIDE ALLOWED/ENABLED'' w)"

definition RegisterProviderFactory :: "string \<Rightarrow> Factory \<Rightarrow> World \<Rightarrow> panic + World" where
  "RegisterProviderFactory name f w =
     (if providerFactories w name \<noteq> None
      then Inl (Panic (''conflict on configuration provider factory: '' @ name))
      else Inr (w\<lparr>providerFactories := (providerFactories w)(name \<mapsto> f)\<rparr>))"

definition ErrorProvider :: "nat \<Rightarrow> string \<Rightarrow> error option \<Rightarrow> World \<Rightarrow> panic + World" where
  "ErrorProvider s name err w = RegisterProvider s name (ErrorFn err) w"

section \<open>Store: notification\<close>

text \<open>
  A send on a channel goes through when the buffer has room and would block otherwise
  (no receiver is waiting: a waiting receiver is a read). \<open>select\<close> with a \<open>default\<close>
  branch takes the default when the send would block.
\<close>

definition chan_send :: "Chan \<Rightarrow> Chan option" where
  "chan_send ch = (if chan_len ch < chan_cap ch then Some (ch\<lparr>chan_len := Suc (chan_len ch)\<rparr>) else None)"

definition select_send_default :: "Chan \<Rightarrow> Chan" where
  "select_send_default ch = (case chan_send ch of Some ch' \<Rightarrow> ch' | None \<Rightarrow> ch)"

definition make_chan :: "nat \<Rightarrow> Chan" where
  "make_chan n = \<lparr>chan_cap = n, chan_len = 0\<rparr>"

text \<open>\<open>Watch\<close> returns the new channel, here as its position in \<open>watchers\<close>.\<close>

definition Watch :: "nat \<Rightarrow> World \<Rightarrow> nat \<times> World" where
  "Watch s w =
     (let newCh = make_chan 1 in
      (length (watchers (stores w s)),
       upd_store s (\<lambda>st. st\<lparr>watchers := watchers st @ [newCh]\<rparr>) w))"

definition NotifyWatchers :: "nat \<Rightarrow> World \<Rightarrow> World" where
  "NotifyWatchers s w = upd_store s (\<lambda>st. st\<lparr>watchers := map select_send_default (watchers st)\<rparr>) w"

text \<open>A consumer's read \<open><-ch\<close> of a pending signal on watcher \<open>i\<close>.\<close>

definition chan_recv :: "nat \<Rightarrow> nat \<Rightarrow> World \<Rightarrow> World" where
  "chan_recv s i w =
     upd_store s (\<lambda>st. st\<lparr>watchers :=
        (if i < length (watchers st) \<and> 0 < chan_len (watchers st ! i)
         then (watchers st)[i := (watchers st ! i)\<lparr>chan_len := chan_len (watchers st ! i) - 1\<rparr>]
         else watchers st)\<rparr>) w"

section \<open>Go library functions the package calls\<close>

text \<open>
  Strings are byte sequences, as in Go. The separators the package passes to
  \<open>strings.Split\<close>, \<open>strings.SplitN\<close> and \<open>strings.Replace\<close> are one-byte constants, so
  these functions take the separator as a byte.
\<close>

definition strings_HasPrefix :: "string \<Rightarrow> string \<Rightarrow> bool" where
  "strings_HasPrefix s prefix = (length prefix \<le> length s \<and> take (length prefix) s = prefix)"

definition strings_TrimPrefix :: "string \<Rightarrow> string \<Rightarrow> string" where
  "strings_TrimPrefix s prefix = (if strings_HasPrefix s prefix then drop (length prefix) s else s)"

text \<open>\<open>strings.Replace(s, old, new, -1)\<close> for a one-byte \<open>old\<close>.\<close>

definition strings_Replace :: "string \<Rightarrow> char \<Rightarrow> string \<Rightarrow> string" where
  "strings_Replace s old new = concat (map (\<lambda>c. if c = old then new else [c]) s)"

text \<open>\<open>strings.Split(s, sep)\<close>: every piece between two separators; \<open>[""]\<close> for the empty string.\<close>

fun strings_Split :: "string \<Rightarrow> char \<Rightarrow> string list" where
  "strings_Split [] sep = [[]]"
| "strings_Split (c # cs) sep =
     (if c = sep then [] # strings_Split cs sep
      else (case strings_Split cs sep of
              [] \<Rightarrow> [[c]]
            | p # ps \<Rightarrow> (c # p) # ps))"

text \<open>\<open>strings.SplitN(s, sep, 2)\<close>: cut at the first separator, or \<open>s\<close> alone.\<close>

definition strings_SplitN2 :: "string \<Rightarrow> char \<Rightarrow> string list" where
  "strings_SplitN2 s sep =
     (if sep \<in> set s
      then [takeWhile (\<lambda>c. c \<noteq> sep) s, tl (dropWhile (\<lambda>c. c \<noteq> sep) s)]
      else [s])"

text \<open>
  \<open>strings.TrimSpace\<close> removes the leading and trailing runes for which
  \<open>unicode.IsSpace\<close> holds. A string starts (ends) with such a rune exactly when it starts
  (ends) with the rune's UTF-8 encoding, so the model strips encodings: tab, line feed,
  vertical tab, form feed, carriage return, space, U+0085, U+00A0, U+1680,
  U+2000 to U+200A, U+2028, U+2029, U+202F, U+205F and U+3000.
\<close>

definition space_encodings :: "string list" where
  "space_encodings =
     [[CHR 0x09], [CHR 0x0A], [CHR 0x0B], [CHR 0x0C], [CHR 0x0D], [CHR 0x20],
      [CHR 0xC2, CHR 0x85], [CHR 0xC2, CHR 0xA0],
      [CHR 0xE1, CHR 0x9A, CHR 0x80],
      [CHR 0xE2, CHR 0x80, CHR 0x80], [CHR 0xE2, CHR 0x80, CHR 0x81],
      [CHR 0xE2, CHR 0x80, CHR 0x82], [CHR 0xE2, CHR 0x80, CHR 0x83],
      [CHR 0xE2, CHR 0x80, CHR 0x84], [CHR 0xE2, CHR 0x80, CHR 0x85],
      [CHR 0xE2, CHR 0x80, CHR 0x86], [CHR 0xE2, CHR 0x80, CHR 0x87],
      [CHR 0xE2, CHR 0x80, CHR 0x88], [CHR 0xE2, CHR 0x80, CHR 0x89],
      [CHR 0xE2, CHR 0x80, CHR 0x8A],
      [CHR 0xE2, CHR 0x80, CHR 0xA8], [CHR 0xE2, CHR 0x80, CHR 0xA9],
      [CHR 0xE2, CHR 0x80, CHR 0xAF], [CHR 0xE2, CHR 0x81, CHR 0x9F],
      [CHR 0xE3, CHR 0x80, CHR 0x80]]"

definition strip_prefix_of :: "string list \<Rightarrow> string \<Rightarrow> string option" where
  "strip_prefix_of encs s =
     map_option (\<lambda>e. drop (length e) s)
       (find (\<lambda>e. e \<noteq> [] \<and> length e \<le> length s \<and> take (length e) s = e) encs)"

function trim_left :: "string list \<Rightarrow> string \<Rightarrow> string" where
  "trim_left encs s = (case strip_prefix_of encs s of None \<Rightarrow> s | Some s' \<Rightarrow> trim_left encs s')"
  by pat_completeness auto
termination
proof (relation "measure (\<lambda>(encs, s). length s)")
  show "wf (measure (\<lambda>(encs, s). length s))" by simp
next
  fix encs :: "string list" and s s' :: string
  assume "strip_prefix_of encs s = Some s'"
  then obtain e where e: "find (\<lambda>e. e \<noteq> [] \<and> length e \<le> length s \<and> take (length e) s = e) encs = Some e"
    and s': "s' = drop (length e) s"
    by (auto simp add: strip_prefix_of_def)
  from e have "e \<noteq> [] \<and> length e \<le> length s"
    by (auto simp add: find_Some_iff)
  with s' show "((encs, s'), (encs, s)) \<in> measure (\<lambda>(encs, s). length s)"
    by (cases e) auto
qed

definition strings_TrimLeftSpace :: "string \<Rightarrow> string" where
  "strings_TrimLeftSpace s = trim_left space_encodings s"

definition strings_TrimRightSpace :: "string \<Rightarrow> string" where
  "strings_TrimRightSpace s = rev (trim_left (map rev space_encodings) (rev s))"

definition strings_TrimSpace :: "string \<Rightarrow> string" where
  "strings_TrimSpace s = strings_TrimRightSpace (strings_TrimLeftSpace s)"

text \<open>
  \<open>strings.ToLower\<close>: a string of ASCII bytes has its letters \<open>A\<close> to \<open>Z\<close> lowered; any
  other string goes through \<open>strings.Map(unicode.ToLower, s)\<close>, whose table is a
  parameter (\<open>unicode_ToLower\<close> of the host).
\<close>

definition ascii_lower :: "char \<Rightarrow> char" where
  "ascii_lower c =
     (if (0x41::nat) \<le> of_char c \<and> of_char c \<le> (0x5A::nat)
      then char_of (of_char c + (0x20::nat)) else c)"

definition strings_ToLower :: "(string \<Rightarrow> string) \<Rightarrow> string \<Rightarrow> string" where
  "strings_ToLower tbl s =
     (if list_all (\<lambda>c. (of_char c :: nat) < 0x80) s then map ascii_lower s else tbl s)"

text \<open>
  \<open>utf8.DecodeRuneInString\<close>: the first rune of a string and its width in bytes;
  \<open>(RuneError, 0)\<close> for the empty string and \<open>(RuneError, 1)\<close> for an invalid encoding.
  \<open>utf8_first\<close> is the table \<open>first\<close> with \<open>acceptRanges\<close>: the width announced by the
  first byte (0 when the byte cannot start a rune) and the range of the second byte.
\<close>

definition utf8_RuneError :: nat where
  "utf8_RuneError = 0xFFFD"

definition utf8_first :: "nat \<Rightarrow> nat \<times> nat \<times> nat" where
  "utf8_first b =
     (if b < 0x80 then (1, 0, 0)
      else if b < 0xC2 then (0, 0, 0)
      else if b \<le> 0xDF then (2, 0x80, 0xBF)
      else if b = 0xE0 then (3, 0xA0, 0xBF)
      else if b \<le> 0xEC then (3, 0x80, 0xBF)
      else if b = 0xED then (3, 0x80, 0x9F)
      else if b \<le> 0xEF then (3, 0x80, 0xBF)
      else if b = 0xF0 then (4, 0x90, 0xBF)
      else if b \<le> 0xF3 then (4, 0x80, 0xBF)
      else if b = 0xF4 then (4, 0x80, 0x8F)
      else (0, 0, 0))"

definition utf8_DecodeRuneInString :: "string \<Rightarrow> nat \<times> nat" where
  "utf8_DecodeRuneInString s =
     (case map of_char s of
        [] \<Rightarrow> (utf8_RuneError, 0)
      | s0 # r \<Rightarrow>
          (case utf8_first s0 of (sz, lo, hi) \<Rightarrow>
             if sz = 1 then (s0, 1)
             else if sz = 0 then (utf8_RuneError, 1)
             else if length s < sz then (utf8_RuneError, 1)
             else let s1 = r ! 0 in
               if s1 < lo \<or> hi < s1 then (utf8_RuneError, 1)
               else if sz \<le> 2 then ((s0 mod 32) * 64 + s1 mod 64, 2)
               else let s2 = r ! 1 in
                 if s2 < 0x80 \<or> 0xBF < s2 then (utf8_RuneError, 1)
                 else if sz \<le> 3 then ((s0 mod 16) * 4096 + (s1 mod 64) * 64 + s2 mod 64, 3)
                 else let s3 = r ! 2 in
                   if s3 < 0x80 \<or> 0xBF < s3 then (utf8_RuneError, 1)
                   else ((s0 mod 8) * 262144 + (s1 mod 64) * 4096 + (s2 mod 64) * 64 + s3 mod 64, 4)))"

text \<open>
  \<open>unicode.IsUpper\<close>: the Latin-1 range is decided by the package's own property table
  (the letters \<open>A\<close> to \<open>Z\<close>, U+00C0 to U+00D6 and U+00D8 to U+00DE); beyond it the range
  table \<open>unicode.Upper\<close> is a parameter.
\<close>

definition unicode_IsUpper :: "(nat \<Rightarrow> bool) \<Rightarrow> nat \<Rightarrow> bool" where
  "unicode_IsUpper tbl r =
     (if r \<le> 0xFF
      then (0x41 \<le> r \<and> r \<le> 0x5A) \<or> (0xC0 \<le> r \<and> r \<le> 0xD6) \<or> (0xD8 \<le> r \<and> r \<le> 0xDE)
      else tbl r)"

text \<open>
  An entry of \<open>os.Environ()\<close> is \<open>NAME=value\<close>: its name is what stands before the first
  \<open>=\<close>, its value what stands after it. \<open>os.Getenv\<close> gives the value of the first entry
  with that name, \<open>""\<close> when there is none; \<open>os.Unsetenv\<close> removes the entries of that name.
\<close>

definition entry_name :: "string \<Rightarrow> string" where
  "entry_name e = takeWhile (\<lambda>c. c \<noteq> CHR ''='') e"

definition entry_value :: "string \<Rightarrow> string" where
  "entry_value e = tl (dropWhile (\<lambda>c. c \<noteq> CHR ''='') e)"

definition os_Getenv :: "string list \<Rightarrow> string \<Rightarrow> string" where
  "os_Getenv environ k =
     (case find (\<lambda>e. CHR ''='' \<in> set e \<and> entry_name e = k) environ of
        None \<Rightarrow> []
      | Some e \<Rightarrow> entry_value e)"

definition os_Unsetenv :: "string \<Rightarrow> string list \<Rightarrow> string list" where
  "os_Unsetenv k environ = filter (\<lambda>e. \<not> (CHR ''='' \<in> set e \<and> entry_name e = k)) environ"

section \<open>The host: file system, environment, clock and the application's functions\<close>

record FileInfo =
  Name :: string
  IsDir :: bool
  ModTime :: int

text \<open>
  What the package reads from outside itself during one call: \<open>ioutil.ReadDir\<close>,
  \<open>ioutil.ReadFile\<close>, \<open>os.Stat\<close>, \<open>filepath.Join\<close>, \<open>os.Environ\<close>, \<open>time.Now\<close>,
  \<open>yaml.Unmarshal\<close> into an item slice, the Unicode tables, and the functions of the
  application (its factories and its providers).
\<close>

record Host =
  ReadDir :: "string \<Rightarrow> error + FileInfo list"
  ReadFile :: "string \<Rightarrow> error + string"
  Stat :: "string \<Rightarrow> error + FileInfo"
  Join :: "string \<Rightarrow> string \<Rightarrow> string"
  Environ :: "string list"
  Now :: int
  yaml_Unmarshal :: "string \<Rightarrow> error + Item list"
  unicode_Upper :: "nat \<Rightarrow> bool"
  unicode_ToLower :: "string \<Rightarrow> string"
  custom_factory :: "nat \<Rightarrow> string \<Rightarrow> World \<Rightarrow> panic + World"
  other_provider :: "nat \<Rightarrow> ItemList \<times> error option"

section \<open>InMemoryProvider\<close>

text \<open>
  \<open>Store.InMemory\<close>: a new \<open>InMemoryProvider\<close> (at the next free address) registered
  under \<open>name\<close> through its method value \<open>inmem.Items\<close>.
\<close>

definition InMemory :: "nat \<Rightarrow> string \<Rightarrow> World \<Rightarrow> panic + (nat \<times> World)" where
  "InMemory s name w =
     (let inmem = length (inmems w);
          w1 = w\<lparr>inmems := inmems w @ [[]]\<rparr>
      in case RegisterProvider s name (InMemoryItems inmem) w1 of
           Inl p \<Rightarrow> Inl p
         | Inr w2 \<Rightarrow> Inr (inmem, w2))"

definition Add :: "nat \<Rightarrow> Item list \<Rightarrow> World \<Rightarrow> World" where
  "Add inmem its w = w\<lparr>inmems := (inmems w)[inmem := inmems w ! inmem @ its]\<rparr>"

definition InMemoryProvider_Items :: "nat \<Rightarrow> World \<Rightarrow> ItemList \<times> error option" where
  "InMemoryProvider_Items inmem w = (ItemList (inmems w ! inmem), None)"

section \<open>EnvVariableProvider\<close>

definition BindEnv :: "string \<Rightarrow> string \<Rightarrow> EnvVariableProvider \<Rightarrow> EnvVariableProvider" where
  "BindEnv environmentVariable itemKey p =
     p\<lparr>bindings := (bindings p)(environmentVariable \<mapsto> itemKey)\<rparr>"

text \<open>The body of the loop of \<open>WithAutomaticBinding\<close> over \<open>os.Environ()\<close>.\<close>

fun WithAutomaticBinding_loop ::
  "Host \<Rightarrow> string \<Rightarrow> string \<Rightarrow> string list \<Rightarrow> EnvVariableProvider \<Rightarrow> EnvVariableProvider" where
  "WithAutomaticBinding_loop h prefix keySeparator [] p = p"
| "WithAutomaticBinding_loop h prefix keySeparator (env # environ) p =
     (let splittedEnv = strings_SplitN2 env (CHR ''='');
          variable = splittedEnv ! 0
      in if \<not> strings_HasPrefix variable prefix
         then WithAutomaticBinding_loop h prefix keySeparator environ p
         else
           let itemKey = strings_TrimPrefix variable prefix;
               itemKey = strings_TrimPrefix itemKey ''_'';
               itemKey = strings_Replace itemKey (CHR ''_'') keySeparator;
               itemKey = strings_ToLower (unicode_ToLower h) itemKey
           in WithAutomaticBinding_loop h prefix keySeparator environ (BindEnv variable itemKey p))"

text \<open>
  \<open>EnvVariableOptions\<close> are functions on the provider under construction: the two the
  package offers, or one of the application (taken to act on the provider only).
\<close>

datatype EnvVariableOptions =
    WithPriority int
  | WithAutomaticBinding string string
  | Other_option "EnvVariableProvider \<Rightarrow> EnvVariableProvider"

fun apply_option :: "Host \<Rightarrow> EnvVariableOptions \<Rightarrow> EnvVariableProvider \<Rightarrow> EnvVariableProvider" where
  "apply_option h (WithPriority p) s = s\<lparr>env_priority := p\<rparr>"
| "apply_option h (WithAutomaticBinding prefix keySeparator) s =
     WithAutomaticBinding_loop h prefix keySeparator (Environ h) s"
| "apply_option h (Other_option f) s = f s"

definition EnvVariable :: "Host \<Rightarrow> nat \<Rightarrow> EnvVariableOptions list \<Rightarrow> World \<Rightarrow> panic + (nat \<times> World)" where
  "EnvVariable h s opts w =
     (let provider = fold (apply_option h) opts
                       \<lparr>inMemory = [], bindings = Map.empty, env_priority = 0\<rparr>;
          a = length (envprovs w);
          w1 = w\<lparr>envprovs := envprovs w @ [provider]\<rparr>
      in case RegisterProvider s ''environ'' (EnvVariableItems a) w1 of
           Inl p \<Rightarrow> Inl p
         | Inr w2 \<Rightarrow> Inr (a, w2))"

text \<open>
  The loop of \<open>EnvVariableProvider.Items\<close>. \<open>splittedEnv[1]\<close> is an index out of range,
  a run-time panic, on an entry with no \<open>=\<close>.
\<close>

fun Items_loop :: "string list \<Rightarrow> EnvVariableProvider \<Rightarrow> panic + EnvVariableProvider" where
  "Items_loop [] s = Inr s"
| "Items_loop (env # environ) s =
     (let splittedEnv = strings_SplitN2 env (CHR ''='');
          variable = splittedEnv ! 0
      in if length splittedEnv < 2
         then Inl (Panic ''runtime error: index out of range [1] with length 1'')
         else
           let val = splittedEnv ! 1 in
           (case bindings s variable of
              Some k \<Rightarrow>
                Items_loop environ
                  (s\<lparr>inMemory := inMemory s @ [\<lparr>key = k, value' = val, priority = env_priority s\<rparr>]\<rparr>)
            | None \<Rightarrow> Items_loop environ s))"

definition EnvVariableProvider_Items ::
  "Host \<Rightarrow> EnvVariableProvider \<Rightarrow> panic + ((ItemList \<times> error option) \<times> EnvVariableProvider)" where
  "EnvVariableProvider_Items h s =
     (case Items_loop (Environ h) (s\<lparr>inMemory := []\<rparr>) of
        Inl p \<Rightarrow> Inl p
      | Inr s' \<Rightarrow> Inr ((ItemList (inMemory s'), None), s'))"

section \<open>Calling a registered provider\<close>

definition call_provider ::
  "Host \<Rightarrow> Provider \<Rightarrow> World \<Rightarrow> panic + ((ItemList \<times> error option) \<times> World)" where
  "call_provider h f w =
     (case f of
        ErrorFn err \<Rightarrow> Inr ((ItemList [], err), w)
      | InMemoryItems a \<Rightarrow> Inr (InMemoryProvider_Items a w, w)
      | EnvVariableItems a \<Rightarrow>
          (case EnvVariableProvider_Items h (envprovs w ! a) of
             Inl p \<Rightarrow> Inl p
           | Inr (r, s') \<Rightarrow> Inr (r, w\<lparr>envprovs := (envprovs w)[a := s']\<rparr>))
      | OtherFn n \<Rightarrow> Inr (other_provider h n, w))"

section \<open>File loaders\<close>

definition readFile ::
  "Host \<Rightarrow> string \<Rightarrow> (string \<Rightarrow> error + Item list) option \<Rightarrow> error + Item list" where
  "readFile h filename fn =
     (case ReadFile h filename of
        Inl err \<Rightarrow> Inl err
      | Inr b \<Rightarrow> (case fn of Some f \<Rightarrow> f b | None \<Rightarrow> yaml_Unmarshal h b))"

text \<open>
  \<open>Store.file\<close>. The in-memory provider is made by the package function \<open>InMemory\<close>,
  which registers it in \<open>_store\<close> (address 0); the error provider is registered in \<open>s\<close>.
  With \<open>refresh\<close> the goroutine is started: it is recorded in \<open>pollers\<close>.
\<close>

definition Store_file ::
  "Host \<Rightarrow> nat \<Rightarrow> string \<Rightarrow> bool \<Rightarrow> (string \<Rightarrow> error + Item list) option \<Rightarrow> World \<Rightarrow> panic + World" where
  "Store_file h s filename refresh fn w =
     (if filename = [] then Inr w
      else
        let providername = ''file:'' @ filename;
            last = Now h
        in case readFile h filename fn of
             Inl err \<Rightarrow> ErrorProvider s providername (Some err) w
           | Inr vals \<Rightarrow>
               (case InMemory 0 providername w of
                  Inl p \<Rightarrow> Inl p
                | Inr (inmem, w1) \<Rightarrow>
                    let w2 = LogInfo (''Configuration from file: '' @ filename) w1;
                        w3 = Add inmem vals w2
                    in if refresh
                       then Inr (w3\<lparr>pollers := pollers w3 @
                              [\<lparr>poll_filename = filename, poll_fn = fn, poll_last = last,
                                poll_inmem = inmem, poll_store = s\<rparr>]\<rparr>)
                       else Inr w3))"

text \<open>
  One tick of the goroutine: the body of \<open>for range ticker.C\<close>, on the host as it is at
  that tick. It returns the goroutine's variables and the state after the body.
\<close>

definition tick :: "Host \<Rightarrow> Poller \<Rightarrow> World \<Rightarrow> Poller \<times> World" where
  "tick h p w =
     (case Stat h (poll_filename p) of
        Inl err \<Rightarrow> (p, w)
      | Inr finfo \<Rightarrow>
          if poll_last p < ModTime finfo
          then
            let p1 = p\<lparr>poll_last := ModTime finfo\<rparr> in
            (case readFile h (poll_filename p) (poll_fn p) of
               Inl err \<Rightarrow> (p1, w)
             | Inr vals \<Rightarrow>
                 (p1, NotifyWatchers (poll_store p)
                        (w\<lparr>inmems := (inmems w)[poll_inmem p := vals]\<rparr>)))
          else (p, w))"

text \<open>The loop over the ticks, one host per tick.\<close>

fun poll :: "Host list \<Rightarrow> Poller \<Rightarrow> World \<Rightarrow> Poller \<times> World" where
  "poll [] p w = (p, w)"
| "poll (h # hs) p w = (case tick h p w of (p', w') \<Rightarrow> poll hs p' w')"

section \<open>Directory loaders\<close>

definition readItem :: "Host \<Rightarrow> string \<Rightarrow> string \<Rightarrow> string \<Rightarrow> error + Item" where
  "readItem h path basename itemKey =
     (case ReadFile h path of
        Inl err \<Rightarrow> Inl err
      | Inr content \<Rightarrow>
          let first = fst (utf8_DecodeRuneInString basename);
              priority = (if unicode_IsUpper (unicode_Upper h) first then 10 else 5)
          in Inr (NewItem itemKey content priority))"

text \<open>\<open>browseDir\<close> returns the items gathered so far together with the error, as the Go does.\<close>

fun browseDir_loop ::
  "Host \<Rightarrow> Item list \<Rightarrow> string \<Rightarrow> string \<Rightarrow> FileInfo list \<Rightarrow> Item list \<times> error option" where
  "browseDir_loop h items path basename [] = (items, None)"
| "browseDir_loop h items path basename (f # files) =
     (let filename = Join h path (Name f) in
      if IsDir f
      then (items, Some (Error (''subdir '' @ basename @ '': encountered nested directory ''
                                 @ Name f @ '', max 1 level of nesting'')))
      else (case readItem h filename (Name f) basename of
              Inl err \<Rightarrow> (items, Some err)
            | Inr it \<Rightarrow> browseDir_loop h (items @ [it]) path basename files))"

definition browseDir :: "Host \<Rightarrow> Item list \<Rightarrow> string \<Rightarrow> string \<Rightarrow> Item list \<times> error option" where
  "browseDir h items path basename =
     (case ReadDir h path of
        Inl err \<Rightarrow> (items, Some err)
      | Inr files \<Rightarrow> browseDir_loop h items path basename files)"

fun FileTree_loop :: "Host \<Rightarrow> string \<Rightarrow> Item list \<Rightarrow> FileInfo list \<Rightarrow> Item list \<times> error option" where
  "FileTree_loop h dirname items [] = (items, None)"
| "FileTree_loop h dirname items (f # files) =
     (let filename = Join h dirname (Name f) in
      if IsDir f
      then (case browseDir h items filename (Name f) of
              (items', Some err) \<Rightarrow> (items', Some err)
            | (items', None) \<Rightarrow> FileTree_loop h dirname items' files)
      else (case readItem h filename (Name f) (Name f) of
              Inl err \<Rightarrow> (items, Some err)
            | Inr it \<Rightarrow> FileTree_loop h dirname (items @ [it]) files))"

definition FileTree :: "Host \<Rightarrow> nat \<Rightarrow> string \<Rightarrow> World \<Rightarrow> panic + World" where
  "FileTree h s dirname w =
     (if dirname = [] then Inr w
      else
        let providername = ''filetree:'' @ dirname in
        case ReadDir h dirname of
          Inl err \<Rightarrow> ErrorProvider s providername (Some err) w
        | Inr files \<Rightarrow>
            (case FileTree_loop h dirname [] files of
               (items, Some err) \<Rightarrow> ErrorProvider s providername (Some err) w
             | (items, None) \<Rightarrow>
                 (case InMemory 0 providername w of
                    Inl p \<Rightarrow> Inl p
                  | Inr (inmem, w1) \<Rightarrow> Inr (fold (\<lambda>it. Add inmem [it]) items w1))))"

fun FileList_loop :: "Host \<Rightarrow> nat \<Rightarrow> string \<Rightarrow> FileInfo list \<Rightarrow> World \<Rightarrow> panic + World" where
  "FileList_loop h s dirname [] w = Inr w"
| "FileList_loop h s dirname (f # files) w =
     (case Store_file h s (Join h dirname (Name f)) False None w of
        Inl p \<Rightarrow> Inl p
      | Inr w' \<Rightarrow> FileList_loop h s dirname files w')"

definition FileList :: "Host \<Rightarrow> nat \<Rightarrow> string \<Rightarrow> World \<Rightarrow> panic + World" where
  "FileList h s dirname w =
     (if dirname = [] then Inr w
      else case ReadDir h dirname of
             Inl err \<Rightarrow> ErrorProvider s (''filelist:'' @ dirname) (Some err) w
           | Inr files \<Rightarrow> FileList_loop h s dirname files w)"

section \<open>InitFromEnvironment\<close>

definition ConfigEnvVar :: string where
  "ConfigEnvVar = ''CONFIGURATION_FROM''"

text \<open>
  Calling a factory function. The built-in factories are the package functions \<open>File\<close>,
  \<open>FileList\<close> and \<open>FileTree\<close>, which work on \<open>_store\<close> (address 0).
\<close>

definition call_factory :: "Host \<Rightarrow> Factory \<Rightarrow> string \<Rightarrow> World \<Rightarrow> panic + World" where
  "call_factory h f arg w =
     (case f of
        File_fn \<Rightarrow> Store_file h 0 arg False None w
      | FileList_fn \<Rightarrow> FileList h 0 arg w
      | FileTree_fn \<Rightarrow> FileTree h 0 arg w
      | Custom_fn n \<Rightarrow> custom_factory h n arg w
      | Nil_fn \<Rightarrow> Inl (Panic ''runtime error: invalid memory address or nil pointer dereference''))"

text \<open>The name and the argument of a directive, as the loop body computes them.\<close>

definition directive_parts :: "string \<Rightarrow> string \<times> string" where
  "directive_parts c =
     (let parts = strings_SplitN2 c (CHR '':'');
          name = (if 1 < length parts then parts ! 0 else c);
          arg = (if 1 < length parts then parts ! 1 else [])
      in (strings_TrimSpace name, strings_TrimSpace arg))"

text \<open>A map lookup of a missing key yields the zero value, a \<open>nil\<close> function.\<close>

definition lookup_factory :: "World \<Rightarrow> string \<Rightarrow> Factory" where
  "lookup_factory w name = (case providerFactories w name of None \<Rightarrow> Nil_fn | Some f \<Rightarrow> f)"

definition init_directive :: "Host \<Rightarrow> nat \<Rightarrow> string \<Rightarrow> World \<Rightarrow> panic + World" where
  "init_directive h s c w =
     (case directive_parts c of (name, arg) \<Rightarrow>
        let f = lookup_factory w name in
        if f = Nil_fn
        then ErrorProvider s (name @ '':'' @ arg)
               (Some (Error ''failed to instantiate provider factory'')) w
        else call_factory h f arg w)"

fun init_loop :: "Host \<Rightarrow> nat \<Rightarrow> string list \<Rightarrow> World \<Rightarrow> panic + World" where
  "init_loop h s [] w = Inr w"
| "init_loop h s (c # cfgList) w =
     (case init_directive h s c w of
        Inl p \<Rightarrow> Inl p
      | Inr w' \<Rightarrow> init_loop h s cfgList w')"

definition InitFromEnvironment :: "Host \<Rightarrow> nat \<Rightarrow> World \<Rightarrow> panic + World" where
  "InitFromEnvironment h s w =
     (let cfg = os_Getenv (Environ h) ConfigEnvVar in
      if cfg = [] then Inr w
      else init_loop h s (strings_Split cfg (CHR '','')) w)"

text \<open>
  The state before \<open>init\<close> and \<open>init\<close> itself: \<open>_store = New()\<close> and the three built-in
  factories.
\<close>

definition world0 :: World where
  "world0 = \<lparr>stores = (\<lambda>_. zero_Store), next_store = 0, inmems = [], envprovs = [],
             providerFactories = Map.empty, pollers = [], logs = []\<rparr>"

definition init :: "World \<Rightarrow> panic + World" where
  "init w =
     (case New w of (s0, w0) \<Rightarrow>
        (case RegisterProviderFactory ''file'' File_fn w0 of
           Inl p \<Rightarrow> Inl p
         | Inr w1 \<Rightarrow>
             (case RegisterProviderFactory ''filelist'' FileList_fn w1 of
                Inl p \<Rightarrow> Inl p
              | Inr w2 \<Rightarrow> RegisterProviderFactory ''filetree'' FileTree_fn w2)))"

section \<open>Operations on the watcher list, for stating what sequences of them keep\<close>

datatype WatchOp = Watch_op | Notify_op | Recv_op nat

fun run_op :: "nat \<Rightarrow> WatchOp \<Rightarrow> World \<Rightarrow> World" where
  "run_op s Watch_op w = snd (Watch s w)"
| "run_op s Notify_op w = NotifyWatchers s w"
| "run_op s (Recv_op i) w = chan_recv s i w"

definition run_ops :: "nat \<Rightarrow> WatchOp list \<Rightarrow> World \<Rightarrow> World" where
  "run_ops s ops w = fold (run_op s) ops w"

definition wf_chan :: "Chan \<Rightarrow> bool" where
  "wf_chan ch = (chan_cap ch = 1 \<and> chan_len ch \<le> 1)"

section \<open>Concrete states used as examples\<close>

text \<open>A store in which an application provider is registered under \<open>db\<close>.\<close>

definition world_db :: World where
  "world_db = upd_store 0 (\<lambda>st. st\<lparr>providers := (providers st)(''db'' \<mapsto> OtherFn 1)\<rparr>) world0"

text \<open>
  The same store after the built-in factory \<open>file\<close> has been registered, override mode
  switched on, one watcher subscribed and one notification sent.
\<close>

definition world_busy :: World where
  "world_busy =
     NotifyWatchers 0 (snd (Watch 0 (AllowProviderOverride 0
       (world_db\<lparr>providerFactories := [''file'' \<mapsto> File_fn]\<rparr>))))"

section \<open>EnvVariableProvider: the key of an automatic binding and the items of a query\<close>

text \<open>The item key \<open>WithAutomaticBinding\<close> derives from a variable name, as one expression.\<close>

definition automatic_key :: "Host \<Rightarrow> string \<Rightarrow> string \<Rightarrow> string \<Rightarrow> string" where
  "automatic_key h prefix keySeparator variable =
     strings_ToLower (unicode_ToLower h)
       (strings_Replace (strings_TrimPrefix (strings_TrimPrefix variable prefix) ''_'')
          (CHR ''_'') keySeparator)"

text \<open>The items a query builds from an environment: one per entry whose name is bound.\<close>

definition produced_items :: "string list \<Rightarrow> EnvVariableProvider \<Rightarrow> Item list" where
  "produced_items environ s =
     List.map_filter
       (\<lambda>e. map_option (\<lambda>k. \<lparr>key = k, value' = entry_value e, priority = env_priority s\<rparr>)
                        (bindings s (entry_name e)))
       environ"

section \<open>A concrete host\<close>

text \<open>
  No file at all, and an environment of three variables; the Unicode tables beyond
  Latin-1 are left empty.
\<close>

definition host0 :: Host where
  "host0 =
     \<lparr>ReadDir = (\<lambda>_. Inl (Error ''no such file or directory'')),
      ReadFile = (\<lambda>_. Inl (Error ''no such file or directory'')),
      Stat = (\<lambda>_. Inl (Error ''no such file or directory'')),
      Join = (\<lambda>d n. d @ ''/'' @ n),
      Environ = [''PATH=/usr/bin'', ''APP_DB_HOST=localhost'', ''APP_PORT=8080''],
      Now = 100,
      yaml_Unmarshal = (\<lambda>_. Inl (Error ''yaml: unsupported'')),
      unicode_Upper = (\<lambda>_. False),
      unicode_ToLower = (\<lambda>s. s),
      custom_factory = (\<lambda>_ _ w. Inr w),
      other_provider = (\<lambda>_. (ItemList [], None))\<rparr>"

text \<open>The same host after \<open>os.Unsetenv("APP_DB_HOST")\<close>.\<close>

definition host0_unset :: Host where
  "host0_unset = host0\<lparr>Environ := os_Unsetenv ''APP_DB_HOST'' (Environ host0)\<rparr>"

text \<open>
  A provider under construction with priority 7, after the option
  \<open>WithAutomaticBinding("APP", "_")\<close> has run on that host.
\<close>

definition provider_app :: EnvVariableProvider where
  "provider_app =
     apply_option host0 (WithAutomaticBinding ''APP'' ''_'')
       \<lparr>inMemory = [], bindings = Map.empty, env_priority = 7\<rparr>"

section \<open>FileTree: the items of a directory, in the spec's words\<close>

text \<open>Priority by the case of the first character of a file's own base name.\<close>

definition file_priority :: "Host \<Rightarrow> string \<Rightarrow> int" where
  "file_priority h basename =
     (if unicode_IsUpper (unicode_Upper h) (fst (utf8_DecodeRuneInString basename)) then 10 else 5)"

definition content_of :: "Host \<Rightarrow> string \<Rightarrow> string" where
  "content_of h path = (case ReadFile h path of Inl err \<Rightarrow> [] | Inr content \<Rightarrow> content)"

definition listing :: "Host \<Rightarrow> string \<Rightarrow> FileInfo list" where
  "listing h path = (case ReadDir h path of Inl err \<Rightarrow> [] | Inr files \<Rightarrow> files)"

text \<open>
  Each file inside a first-level subdirectory yields one item, keyed by the
  subdirectory's name, with the priority of the file's own name.
\<close>

definition subdir_items :: "Host \<Rightarrow> string \<Rightarrow> string \<Rightarrow> FileInfo list \<Rightarrow> Item list" where
  "subdir_items h path dirbase files =
     map (\<lambda>g. NewItem dirbase (content_of h (Join h path (Name g))) (file_priority h (Name g))) files"

text \<open>
  Each top-level plain file yields one item keyed by its base name; each subdirectory
  yields the items of its files.
\<close>

definition tree_items :: "Host \<Rightarrow> string \<Rightarrow> FileInfo list \<Rightarrow> Item list" where
  "tree_items h dirname files =
     concat (map (\<lambda>f.
        if IsDir f
        then subdir_items h (Join h dirname (Name f)) (Name f) (listing h (Join h dirname (Name f)))
        else [NewItem (Name f) (content_of h (Join h dirname (Name f))) (file_priority h (Name f))])
      files)"

text \<open>
  A subdirectory loads when its entries are plain files that can be read; a directory
  loads when its plain files can be read and its subdirectories can be listed and load.
\<close>

definition subdir_ok :: "Host \<Rightarrow> string \<Rightarrow> FileInfo list \<Rightarrow> bool" where
  "subdir_ok h path files =
     list_all (\<lambda>g. \<not> IsDir g \<and> \<not> isl (ReadFile h (Join h path (Name g)))) files"

definition tree_ok :: "Host \<Rightarrow> string \<Rightarrow> FileInfo list \<Rightarrow> bool" where
  "tree_ok h dirname files =
     list_all (\<lambda>f.
        if IsDir f
        then \<not> isl (ReadDir h (Join h dirname (Name f))) \<and>
             subdir_ok h (Join h dirname (Name f)) (listing h (Join h dirname (Name f)))
        else \<not> isl (ReadFile h (Join h dirname (Name f))))
      files"


section \<open>Concrete directories\<close>

text \<open>
  \<open>cfg\<close> holds the subdirectory \<open>db\<close>, with the files \<open>Primary\<close> and \<open>replica\<close>, and the
  plain file \<open>port\<close>; \<open>ioutil.ReadDir\<close> lists entries sorted by name.
\<close>

definition host_tree :: Host where
  "host_tree = host0
     \<lparr>ReadDir := (\<lambda>p.
         if p = ''cfg'' then Inr [\<lparr>Name = ''db'', IsDir = True, ModTime = 1\<rparr>,
                                 \<lparr>Name = ''port'', IsDir = False, ModTime = 1\<rparr>]
         else if p = ''cfg/db'' then Inr [\<lparr>Name = ''Primary'', IsDir = False, ModTime = 1\<rparr>,
                                          \<lparr>Name = ''replica'', IsDir = False, ModTime = 1\<rparr>]
         else Inl (Error ''no such file or directory'')),
      ReadFile := (\<lambda>p.
         if p = ''cfg/db/Primary'' then Inr ''db1.example''
         else if p = ''cfg/db/replica'' then Inr ''db2.example''
         else if p = ''cfg/port'' then Inr ''8080''
         else Inl (Error ''no such file or directory''))\<rparr>"


section \<open>The polling loop: what a failed tick is\<close>

text \<open>
  A tick reaches the read of the file when \<open>os.Stat\<close> succeeds with a modification time
  after \<open>last\<close>. A tick fails when \<open>os.Stat\<close> fails, or when it reaches the read and the
  read or the decoding fails.
\<close>

definition rereads :: "Host \<Rightarrow> Poller \<Rightarrow> bool" where
  "rereads h p =
     (case Stat h (poll_filename p) of
        Inl err \<Rightarrow> False
      | Inr finfo \<Rightarrow> poll_last p < ModTime finfo)"

definition tick_fails :: "Host \<Rightarrow> Poller \<Rightarrow> bool" where
  "tick_fails h p =
     (isl (Stat h (poll_filename p)) \<or>
      (rereads h p \<and> isl (readFile h (poll_filename p) (poll_fn p))))"

section \<open>A concrete refreshing file\<close>

definition item_v1 :: Item where
  "item_v1 = \<lparr>key = ''mode'', value' = ''blue'', priority = 1\<rparr>"

definition item_v2 :: Item where
  "item_v2 = \<lparr>key = ''mode'', value' = ''green'', priority = 1\<rparr>"

text \<open>
  \<open>app.yaml\<close> holds \<open>v1\<close>, modified at time 50; the clock reads 100. The decoder knows the
  two contents \<open>v1\<close> and \<open>v2\<close>.
\<close>

definition host_v1 :: Host where
  "host_v1 = host0
     \<lparr>ReadFile := (\<lambda>p. if p = ''app.yaml'' then Inr ''v1''
                         else Inl (Error ''no such file or directory'')),
      Stat := (\<lambda>p. if p = ''app.yaml''
                     then Inr \<lparr>Name = ''app.yaml'', IsDir = False, ModTime = 50\<rparr>
                     else Inl (Error ''no such file or directory'')),
      yaml_Unmarshal := (\<lambda>b. if b = ''v1'' then Inr [item_v1]
                              else if b = ''v2'' then Inr [item_v2]
                              else Inl (Error ''yaml: unmarshal error''))\<rparr>"

text \<open>The file while it is being rewritten, at time 200: its content does not decode.\<close>

definition host_torn :: Host where
  "host_torn = host_v1
     \<lparr>ReadFile := (\<lambda>p. if p = ''app.yaml'' then Inr ''v''
                         else Inl (Error ''no such file or directory'')),
      Stat := (\<lambda>p. if p = ''app.yaml''
                     then Inr \<lparr>Name = ''app.yaml'', IsDir = False, ModTime = 200\<rparr>
                     else Inl (Error ''no such file or directory''))\<rparr>"

text \<open>The file once rewritten, with the same modification time 200: it holds \<open>v2\<close>.\<close>

definition host_v2 :: Host where
  "host_v2 = host_torn
     \<lparr>ReadFile := (\<lambda>p. if p = ''app.yaml'' then Inr ''v2''
                         else Inl (Error ''no such file or directory''))\<rparr>"

text \<open>The file gone: \<open>os.Stat\<close> fails.\<close>

definition host_gone :: Host where
  "host_gone = host0"

text \<open>
  The goroutine's variables and the state after \<open>FileRefresh("app.yaml")\<close> on \<open>host_v1\<close>,
  from the initial state.
\<close>

definition poller0 :: Poller where
  "poller0 = \<lparr>poll_filename = ''app.yaml'', poll_fn = None, poll_last = 100,
              poll_inmem = 0, poll_store = 0\<rparr>"

definition world_file :: World where
  "world_file =
     (case Store_file host_v1 0 ''app.yaml'' True None world0 of
        Inl p \<Rightarrow> world0
      | Inr w \<Rightarrow> w)"

section \<open>InitFromEnvironment: notions for stating what a directive is\<close>

text \<open>The pieces put back together with the separator between them.\<close>

fun join_sep :: "char \<Rightarrow> string list \<Rightarrow> string" where
  "join_sep sep [] = []"
| "join_sep sep [p] = p"
| "join_sep sep (p # q # ps) = p @ sep # join_sep sep (q # ps)"

text \<open>
  A run of white space is a sequence of encoded white-space runes; \<open>n\<close> is \<open>raw\<close> trimmed
  when \<open>raw\<close> is \<open>n\<close> between two runs of white space and \<open>n\<close> neither starts nor ends
  with a white-space rune.
\<close>

definition is_space_run :: "string \<Rightarrow> bool" where
  "is_space_run l = (\<exists>es. set es \<subseteq> set space_encodings \<and> l = concat es)"

definition starts_with_space :: "string \<Rightarrow> bool" where
  "starts_with_space s = (\<exists>e \<in> set space_encodings. strings_HasPrefix s e)"

definition ends_with_space :: "string \<Rightarrow> bool" where
  "ends_with_space s = (\<exists>e \<in> set space_encodings. strings_HasPrefix (rev s) (rev e))"

definition trimmed_of :: "string \<Rightarrow> string \<Rightarrow> bool" where
  "trimmed_of raw n =
     (\<exists>l r. raw = l @ n @ r \<and> is_space_run l \<and> is_space_run r \<and>
            \<not> starts_with_space n \<and> \<not> ends_with_space n)"

section \<open>Concrete environments for InitFromEnvironment\<close>

text \<open>The state after \<open>init\<close>.\<close>

definition world_init :: World where
  "world_init = (case init world0 of Inl p \<Rightarrow> world0 | Inr w \<Rightarrow> w)"

text \<open>Two directives naming factories that are not registered, with white space around the parts.\<close>

definition host_cfg :: Host where
  "host_cfg = host0\<lparr>Environ := [''PATH=/usr/bin'', ''CONFIGURATION_FROM= vault : kv/app ,consul'']\<rparr>"

text \<open>The same unregistered factory named twice.\<close>

definition host_dup :: Host where
  "host_dup = host0\<lparr>Environ := [''CONFIGURATION_FROM=vault,vault'']\<rparr>"

text \<open>
  Two directives written differently that name the same unregistered factory with the
  same (empty) argument once trimmed.
\<close>

definition host_twice :: Host where
  "host_twice = host0\<lparr>Environ := [''CONFIGURATION_FROM=consul, consul :'']\<rparr>"

text \<open>The state after the first of these two directives.\<close>

definition world_consul :: World where
  "world_consul =
     upd_store 0 (\<lambda>st. st\<lparr>providers := (providers st)(''consul:'' \<mapsto>
        ErrorFn (Some (Error ''failed to instantiate provider factory'')))\<rparr>) world_init"


section \<open>Frame lemmas of the state\<close>

lemma upd_store_same [simp]: "stores (upd_store s f w) s = f (stores w s)"
  by (simp add: upd_store_def)

lemma upd_store_other [simp]: "t \<noteq> s \<Longrightarrow> stores (upd_store s f w) t = stores w t"
  by (simp add: upd_store_def)

lemma upd_store_fields [simp]:
  "inmems (upd_store s f w) = inmems w"
  "envprovs (upd_store s f w) = envprovs w"
  "providerFactories (upd_store s f w) = providerFactories w"
  "pollers (upd_store s f w) = pollers w"
  "logs (upd_store s f w) = logs w"
  "next_store (upd_store s f w) = next_store w"
  by (simp_all add: upd_store_def)

lemma LogInfo_fields [simp]:
  "stores (LogInfo m w) = stores w"
  "inmems (LogInfo m w) = inmems w"
  "envprovs (LogInfo m w) = envprovs w"
  "providerFactories (LogInfo m w) = providerFactories w"
  "pollers (LogInfo m w) = pollers w"
  "next_store (LogInfo m w) = next_store w"
  by (simp_all add: LogInfo_def)

section \<open>The registry: conflicts, override and Clear\<close>

text \<open>
  C1. Registering under a name that is already in the provider map panics while override
  mode is off. Once \<open>AllowProviderOverride\<close> has been called on the store, the same call
  returns, and the provider map then holds the new provider under that name (a map has
  one value per name, so the earlier provider is gone); the other names keep their
  providers.
\<close>

theorem C1_register_conflict_and_override:
  assumes "providers (stores w s) name = Some old"
  shows "(\<not> allowProviderOverride (stores w s) \<longrightarrow>
            RegisterProvider s name f w =
              Inl (Panic (''conflict on configuration provider: '' @ name))) \<and>
         allowProviderOverride (stores (AllowProviderOverride s w) s) \<and>
         (\<exists>w'. RegisterProvider s name f (AllowProviderOverride s w) = Inr w' \<and>
               providers (stores w' s) name = Some f \<and>
               (\<forall>n. n \<noteq> name \<longrightarrow> providers (stores w' s) n = providers (stores w s) n))"
  using assms by (simp add: RegisterProvider_def AllowProviderOverride_def)

theorem C1_witness:
  "RegisterProvider 0 ''db'' (OtherFn 2) world_db =
     Inl (Panic ''conflict on configuration provider: db'') \<and>
   (\<exists>w'. RegisterProvider 0 ''db'' (OtherFn 2) (AllowProviderOverride 0 world_db) = Inr w' \<and>
         providers (stores w' 0) ''db'' = Some (OtherFn 2))"
proof -
  have h: "providers (stores world_db 0) ''db'' = Some (OtherFn 1)"
    by (simp add: world_db_def)
  have n: "\<not> allowProviderOverride (stores world_db 0)"
    by (simp add: world_db_def world0_def zero_Store_def)
  from C1_register_conflict_and_override [OF h, of "OtherFn 2"] n show ?thesis
    by auto
qed

text \<open>
  C9. In every state, \<open>Clear\<close> on a store empties its provider map and switches its
  override flag off; the store's watcher list and the factory registry are as before the
  call, and so is every other store.
\<close>

theorem C9_Clear_frame:
  "providers (stores (Clear s w) s) = Map.empty \<and>
   \<not> allowProviderOverride (stores (Clear s w) s) \<and>
   watchers (stores (Clear s w) s) = watchers (stores w s) \<and>
   providerFactories (Clear s w) = providerFactories w \<and>
   (\<forall>t. t \<noteq> s \<longrightarrow> stores (Clear s w) t = stores w t)"
  by (simp add: Clear_def)

theorem C9_witness:
  "providers (stores world_busy 0) ''db'' = Some (OtherFn 1) \<and>
   allowProviderOverride (stores world_busy 0) \<and>
   providers (stores (Clear 0 world_busy) 0) ''db'' = None \<and>
   \<not> allowProviderOverride (stores (Clear 0 world_busy) 0) \<and>
   watchers (stores (Clear 0 world_busy) 0) = [\<lparr>chan_cap = 1, chan_len = 1\<rparr>] \<and>
   providerFactories (Clear 0 world_busy) ''file'' = Some File_fn"
  using C9_Clear_frame [of 0 world_busy]
  by (simp add: world_busy_def world_db_def world0_def zero_Store_def NotifyWatchers_def
      Watch_def AllowProviderOverride_def make_chan_def select_send_default_def chan_send_def)

section \<open>Notification\<close>

lemma wf_chan_select_send: "wf_chan ch \<Longrightarrow> wf_chan (select_send_default ch)"
  by (auto simp add: wf_chan_def select_send_default_def chan_send_def)

lemma select_send_full: "wf_chan ch \<Longrightarrow> chan_len (select_send_default ch) = 1"
  by (auto simp add: wf_chan_def select_send_default_def chan_send_def)

lemma run_op_wf:
  "list_all wf_chan (watchers (stores w s)) \<Longrightarrow> list_all wf_chan (watchers (stores (run_op s x w) s))"
  apply (cases x)
  apply (auto simp add: Watch_def NotifyWatchers_def chan_recv_def make_chan_def wf_chan_def list_all_iff 
      select_send_default_def chan_send_def  dest!: set_update_subset_insert[THEN subsetD])
  done

lemma run_ops_wf:
  "list_all wf_chan (watchers (stores w s)) \<Longrightarrow>
   list_all wf_chan (watchers (stores (run_ops s ops w) s))"
  unfolding run_ops_def
  by (induction ops arbitrary: w) (simp_all add: run_op_wf)

lemma run_op_length:
  "length (watchers (stores w s)) \<le> length (watchers (stores (run_op s x w) s))"
  by (cases x) (simp_all add: Watch_def NotifyWatchers_def chan_recv_def)

lemma run_op_nth:
  assumes "i < length (watchers (stores w s))" and "x \<noteq> Recv_op i"
  shows "watchers (stores (run_op s x w) s) ! i =
           (if x = Notify_op then select_send_default (watchers (stores w s) ! i)
            else watchers (stores w s) ! i)"
  using assms
  by (cases x) (auto simp add: Watch_def NotifyWatchers_def chan_recv_def nth_append)

lemma run_ops_len:
  assumes "list_all wf_chan (watchers (stores w s))"
      and "i < length (watchers (stores w s))"
      and "Recv_op i \<notin> set ops"
  shows "chan_len (watchers (stores (run_ops s ops w) s) ! i) =
           (if Notify_op \<in> set ops then 1 else chan_len (watchers (stores w s) ! i))"
  using assms
proof (induction ops arbitrary: w)
  case Nil
  then show ?case by (simp add: run_ops_def)
next
  case (Cons x xs)
  let ?w' = "run_op s x w"
  have wf': "list_all wf_chan (watchers (stores ?w' s))"
    using Cons.prems(1) by (rule run_op_wf)
  have len': "i < length (watchers (stores ?w' s))"
    using Cons.prems(2) run_op_length [of w s x] by simp
  have x: "x \<noteq> Recv_op i" and xs: "Recv_op i \<notin> set xs"
    using Cons.prems(3) by auto
  have ih: "chan_len (watchers (stores (run_ops s xs ?w') s) ! i) =
              (if Notify_op \<in> set xs then 1 else chan_len (watchers (stores ?w' s) ! i))"
    using Cons.IH [OF wf' len' xs] .
  have wfi: "wf_chan (watchers (stores w s) ! i)"
    using Cons.prems(1,2) by (simp add: list_all_length)
  have nth': "chan_len (watchers (stores ?w' s) ! i) =
                (if x = Notify_op then 1 else chan_len (watchers (stores w s) ! i))"
    using run_op_nth [OF Cons.prems(2) x] select_send_full [OF wfi] by simp
  have "run_ops s (x # xs) w = run_ops s xs ?w'"
    by (simp add: run_ops_def)
  with ih nth' show ?case by auto
qed

text \<open>
  C7. The channel \<open>Watch\<close> returns has capacity 1, and the send of \<open>NotifyWatchers\<close> is
  the \<open>select\<close> with a \<open>default\<close> branch: it fills a channel that has room and leaves a
  full one as it is, so it never waits. Hence, from a store with no watcher yet (as \<open>New\<close>
  returns it) and after any sequence of subscriptions, notifications and reads, every
  watcher channel has capacity 1 and holds at most one signal; and after any further
  sequence with no read on that channel, the channel holds exactly one signal as soon as
  the sequence has a notification, never two.
\<close>

theorem C7_watch_channels_hold_one_signal:
  assumes fresh: "watchers (stores w s) = []"
  shows "chan_cap (watchers (stores (snd (Watch s v)) s) ! fst (Watch s v)) = 1 \<and>
         (\<forall>ch. select_send_default ch =
                 (if chan_len ch < chan_cap ch then ch\<lparr>chan_len := Suc (chan_len ch)\<rparr> else ch)) \<and>
         (\<forall>i < length (watchers (stores (run_ops s ops w) s)).
             chan_cap (watchers (stores (run_ops s ops w) s) ! i) = 1 \<and>
             chan_len (watchers (stores (run_ops s ops w) s) ! i) \<le> 1 \<and>
             (\<forall>ops2. Recv_op i \<notin> set ops2 \<longrightarrow>
                chan_len (watchers (stores (run_ops s ops2 (run_ops s ops w)) s) ! i) =
                  (if Notify_op \<in> set ops2 then 1
                   else chan_len (watchers (stores (run_ops s ops w) s) ! i))))"
proof -
  have a: "chan_cap (watchers (stores (snd (Watch s v)) s) ! fst (Watch s v)) = 1"
    by (simp add: Watch_def make_chan_def)
  have b: "\<forall>ch. select_send_default ch =
                 (if chan_len ch < chan_cap ch then ch\<lparr>chan_len := Suc (chan_len ch)\<rparr> else ch)"
    by (simp add: select_send_default_def chan_send_def)
  have wf0: "list_all wf_chan (watchers (stores w s))"
    using fresh by simp
  have wf1: "list_all wf_chan (watchers (stores (run_ops s ops w) s))"
    using wf0 by (rule run_ops_wf)
  have c: "\<forall>i < length (watchers (stores (run_ops s ops w) s)).
             chan_cap (watchers (stores (run_ops s ops w) s) ! i) = 1 \<and>
             chan_len (watchers (stores (run_ops s ops w) s) ! i) \<le> 1 \<and>
             (\<forall>ops2. Recv_op i \<notin> set ops2 \<longrightarrow>
                chan_len (watchers (stores (run_ops s ops2 (run_ops s ops w)) s) ! i) =
                  (if Notify_op \<in> set ops2 then 1
                   else chan_len (watchers (stores (run_ops s ops w) s) ! i)))"
  proof (intro allI impI conjI)
    fix i assume i: "i < length (watchers (stores (run_ops s ops w) s))"
    from wf1 i have "wf_chan (watchers (stores (run_ops s ops w) s) ! i)"
      by (simp add: list_all_length)
    then show "chan_cap (watchers (stores (run_ops s ops w) s) ! i) = 1"
      and "chan_len (watchers (stores (run_ops s ops w) s) ! i) \<le> 1"
      by (simp_all add: wf_chan_def)
  next
    fix i ops2
    assume i: "i < length (watchers (stores (run_ops s ops w) s))"
       and r: "Recv_op i \<notin> set ops2"
    show "chan_len (watchers (stores (run_ops s ops2 (run_ops s ops w)) s) ! i) =
            (if Notify_op \<in> set ops2 then 1
             else chan_len (watchers (stores (run_ops s ops w) s) ! i))"
      using run_ops_len [OF wf1 i r] .
  qed
  from a b c show ?thesis by blast
qed

text \<open>
  On a fresh store: two watchers subscribe, a notification is sent and the first watcher
  reads it; two notifications in a row then leave one signal in each channel.
\<close>

theorem C7_witness:
  "watchers (stores world0 0) = [] \<and>
   watchers (stores (run_ops 0 [Watch_op, Watch_op, Notify_op, Recv_op 0] world0) 0) =
     [\<lparr>chan_cap = 1, chan_len = 0\<rparr>, \<lparr>chan_cap = 1, chan_len = 1\<rparr>] \<and>
   chan_len (watchers (stores (run_ops 0 [Notify_op, Notify_op]
       (run_ops 0 [Watch_op, Watch_op, Notify_op, Recv_op 0] world0)) 0) ! 0) = 1 \<and>
   chan_len (watchers (stores (run_ops 0 [Notify_op, Notify_op]
       (run_ops 0 [Watch_op, Watch_op, Notify_op, Recv_op 0] world0)) 0) ! 1) = 1"
proof -
  have f: "watchers (stores world0 0) = []"
    by (simp add: world0_def zero_Store_def)
  have e: "watchers (stores (run_ops 0 [Watch_op, Watch_op, Notify_op, Recv_op 0] world0) 0) =
     [\<lparr>chan_cap = 1, chan_len = 0\<rparr>, \<lparr>chan_cap = 1, chan_len = 1\<rparr>]"
    by (simp add: run_ops_def world0_def zero_Store_def Watch_def NotifyWatchers_def
        chan_recv_def make_chan_def select_send_default_def chan_send_def)
  from C7_watch_channels_hold_one_signal [OF f, of world0 "[Watch_op, Watch_op, Notify_op, Recv_op 0]"]
  have "\<forall>i < length (watchers (stores (run_ops 0 [Watch_op, Watch_op, Notify_op, Recv_op 0] world0) 0)).
          (\<forall>ops2. Recv_op i \<notin> set ops2 \<longrightarrow>
                chan_len (watchers (stores (run_ops 0 ops2 (run_ops 0 [Watch_op, Watch_op, Notify_op, Recv_op 0] world0)) 0) ! i) =
                  (if Notify_op \<in> set ops2 then 1
                   else chan_len (watchers (stores (run_ops 0 [Watch_op, Watch_op, Notify_op, Recv_op 0] world0) 0) ! i)))"
    by blast
  then have "\<forall>i < 2. chan_len (watchers (stores (run_ops 0 [Notify_op, Notify_op] (run_ops 0 [Watch_op, Watch_op, Notify_op, Recv_op 0] world0)) 0) ! i) = 1"
    unfolding e by fastforce
  then have "chan_len (watchers (stores (run_ops 0 [Notify_op, Notify_op] (run_ops 0 [Watch_op, Watch_op, Notify_op, Recv_op 0] world0)) 0) ! 0) = 1"
    and "chan_len (watchers (stores (run_ops 0 [Notify_op, Notify_op] (run_ops 0 [Watch_op, Watch_op, Notify_op, Recv_op 0] world0)) 0) ! 1) = 1"
    by simp_all
  with f e show ?thesis by simp
qed

section \<open>EnvVariableProvider: bindings and queries\<close>

lemma automatic_key_APP_DB_HOST: "automatic_key h ''APP'' ''_'' ''APP_DB_HOST'' = ''db_host''"
  by code_simp

lemma takeWhile_notin: "c \<notin> set e \<Longrightarrow> takeWhile (\<lambda>x. x \<noteq> c) e = e"
  by (induction e) auto

lemma splitN2_0: "strings_SplitN2 e c ! 0 = takeWhile (\<lambda>x. x \<noteq> c) e"
  by (simp add: strings_SplitN2_def takeWhile_notin)

lemma splitN2_len: "length (strings_SplitN2 e c) < 2 \<longleftrightarrow> c \<notin> set e"
  by (simp add: strings_SplitN2_def)

lemma splitN2_1: "c \<in> set e \<Longrightarrow> strings_SplitN2 e c ! Suc 0 = tl (dropWhile (\<lambda>x. x \<noteq> c) e)"
  by (simp add: strings_SplitN2_def)

lemma autobind_bindings:
  "bindings (WithAutomaticBinding_loop h prefix sep environ p) v =
     (if \<exists>e \<in> set environ. entry_name e = v \<and> strings_HasPrefix v prefix
      then Some (automatic_key h prefix sep v) else bindings p v)"
  by (induction environ arbitrary: p)
     (auto simp add: Let_def splitN2_0 entry_name_def BindEnv_def automatic_key_def)

lemma autobind_priority:
  "env_priority (WithAutomaticBinding_loop h prefix sep environ p) = env_priority p"
  by (induction environ arbitrary: p) (auto simp add: Let_def BindEnv_def)

lemma Items_loop_char:
  "\<forall>e \<in> set environ. CHR ''='' \<in> set e \<Longrightarrow>
   Items_loop environ s = Inr (s\<lparr>inMemory := inMemory s @ produced_items environ s\<rparr>)"
proof (induction environ arbitrary: s)
  case Nil
  then show ?case by (simp add: produced_items_def map_filter_simps)
next
  case (Cons e environ)
  then show ?case
    by (cases "bindings s (entry_name e)")
       (simp_all add: Let_def splitN2_0 splitN2_len splitN2_1 produced_items_def map_filter_simps
          entry_name_def entry_value_def)
qed

lemma Items_loop_panic:
  "\<exists>e \<in> set environ. CHR ''='' \<notin> set e \<Longrightarrow>
   Items_loop environ s = Inl (Panic ''runtime error: index out of range [1] with length 1'')"
proof (induction environ arbitrary: s)
  case Nil
  then show ?case by simp
next
  case (Cons e environ)
  then show ?case
    by (cases "bindings s (entry_name e)")
       (auto simp add: Let_def splitN2_0 splitN2_len splitN2_1 entry_name_def)
qed

lemma produced_items_inMemory [simp]:
  "produced_items environ (s\<lparr>inMemory := xs\<rparr>) = produced_items environ s"
  by (simp add: produced_items_def)

lemma EnvVariableProvider_Items_char:
  assumes "\<forall>e \<in> set (Environ h). CHR ''='' \<in> set e"
  shows "EnvVariableProvider_Items h s =
           Inr ((ItemList (produced_items (Environ h) s), None),
                s\<lparr>inMemory := produced_items (Environ h) s\<rparr>)"
  using Items_loop_char [OF assms, of "s\<lparr>inMemory := []\<rparr>"]
  by (simp add: EnvVariableProvider_Items_def)

lemma produced_items_set:
  "it \<in> set (produced_items environ s) \<longleftrightarrow>
     (\<exists>e \<in> set environ. \<exists>k. bindings s (entry_name e) = Some k \<and>
         it = \<lparr>key = k, value' = entry_value e, priority = env_priority s\<rparr>)"
  by (induction environ) (auto simp add: produced_items_def map_filter_simps split: option.splits)

lemma os_Unsetenv_set:
  "e \<in> set (os_Unsetenv k environ) \<longleftrightarrow> e \<in> set environ \<and> \<not> (CHR ''='' \<in> set e \<and> entry_name e = k)"
  by (simp add: os_Unsetenv_def)

text \<open>
  C8. Let a provider be built by \<open>WithAutomaticBinding("APP", "_")\<close> in an environment
  where \<open>APP_DB_HOST=localhost\<close> is set. The variable is then bound to the key \<open>db_host\<close>
  and the priority is the one fixed at construction. A query reads the environment of the
  moment (every entry of which has its \<open>=\<close>), reports no error, and while the entry is set
  its list has the item \<open>db_host\<close> / \<open>localhost\<close> with that priority. The next query, after
  \<open>os.Unsetenv("APP_DB_HOST")\<close>, reports no error either and every item of its list comes
  from another variable that is still set: the item of \<open>APP_DB_HOST\<close> is gone, and no item
  is keyed \<open>db_host\<close> unless another set variable is bound to that key.
\<close>

theorem C8_automatic_binding_live_environment:
  assumes present: "''APP_DB_HOST=localhost'' \<in> set (Environ h)"
      and built: "p = apply_option h (WithAutomaticBinding ''APP'' ''_'') p0"
      and wf: "\<forall>e \<in> set (Environ h2). CHR ''='' \<in> set e"
      and p1: "p1 = p\<lparr>inMemory := produced_items (Environ h2) p\<rparr>"
      and h3: "h3 = h2\<lparr>Environ := os_Unsetenv ''APP_DB_HOST'' (Environ h2)\<rparr>"
  shows "bindings p ''APP_DB_HOST'' = Some ''db_host'' \<and>
         env_priority p = env_priority p0 \<and>
         EnvVariableProvider_Items h2 p =
           Inr ((ItemList (produced_items (Environ h2) p), None), p1) \<and>
         (''APP_DB_HOST=localhost'' \<in> set (Environ h2) \<longrightarrow>
            \<lparr>key = ''db_host'', value' = ''localhost'', priority = env_priority p\<rparr>
              \<in> set (produced_items (Environ h2) p)) \<and>
         (\<exists>p2. EnvVariableProvider_Items h3 p1 =
                 Inr ((ItemList (produced_items (Environ h3) p), None), p2)) \<and>
         (\<forall>it \<in> set (produced_items (Environ h3) p).
            \<exists>e \<in> set (Environ h2). entry_name e \<noteq> ''APP_DB_HOST'' \<and>
               bindings p (entry_name e) = Some (key it) \<and> value' it = entry_value e) \<and>
         ((\<forall>e \<in> set (Environ h2). entry_name e \<noteq> ''APP_DB_HOST'' \<longrightarrow>
              bindings p (entry_name e) \<noteq> Some ''db_host'') \<longrightarrow>
          (\<forall>it \<in> set (produced_items (Environ h3) p). key it \<noteq> ''db_host''))"
proof -
  have name: "entry_name ''APP_DB_HOST=localhost'' = ''APP_DB_HOST''"
    and val: "entry_value ''APP_DB_HOST=localhost'' = ''localhost''"
    by (simp_all add: entry_name_def entry_value_def)
  have pre: "strings_HasPrefix ''APP_DB_HOST'' ''APP''"
    by (simp add: strings_HasPrefix_def)
  have b: "bindings p ''APP_DB_HOST'' = Some ''db_host''"
    using present name pre unfolding built
    by (auto simp add: autobind_bindings automatic_key_APP_DB_HOST)
  have pr: "env_priority p = env_priority p0"
    unfolding built by (simp add: autobind_priority)
  have q1: "EnvVariableProvider_Items h2 p =
              Inr ((ItemList (produced_items (Environ h2) p), None), p1)"
    unfolding p1 using wf by (rule EnvVariableProvider_Items_char)
  have there: "''APP_DB_HOST=localhost'' \<in> set (Environ h2) \<longrightarrow>
            \<lparr>key = ''db_host'', value' = ''localhost'', priority = env_priority p\<rparr>
              \<in> set (produced_items (Environ h2) p)"
  proof
    assume "''APP_DB_HOST=localhost'' \<in> set (Environ h2)"
    moreover have "bindings p (entry_name ''APP_DB_HOST=localhost'') = Some ''db_host''"
      using b name by simp
    ultimately show "\<lparr>key = ''db_host'', value' = ''localhost'', priority = env_priority p\<rparr>
              \<in> set (produced_items (Environ h2) p)"
      unfolding produced_items_set using val by metis
  qed
  have env3: "Environ h3 = os_Unsetenv ''APP_DB_HOST'' (Environ h2)"
    unfolding h3 by simp
  have wf3: "\<forall>e \<in> set (Environ h3). CHR ''='' \<in> set e"
    using wf unfolding env3 by (simp add: os_Unsetenv_set)
  have q2: "\<exists>p2. EnvVariableProvider_Items h3 p1 =
                 Inr ((ItemList (produced_items (Environ h3) p), None), p2)"
    using EnvVariableProvider_Items_char [OF wf3, of p1] unfolding p1 by simp
  have from_other: "\<forall>it \<in> set (produced_items (Environ h3) p).
            \<exists>e \<in> set (Environ h2). entry_name e \<noteq> ''APP_DB_HOST'' \<and>
               bindings p (entry_name e) = Some (key it) \<and> value' it = entry_value e"
    using wf unfolding env3 by (fastforce simp add: produced_items_set os_Unsetenv_set)
  have absent: "(\<forall>e \<in> set (Environ h2). entry_name e \<noteq> ''APP_DB_HOST'' \<longrightarrow>
              bindings p (entry_name e) \<noteq> Some ''db_host'') \<longrightarrow>
          (\<forall>it \<in> set (produced_items (Environ h3) p). key it \<noteq> ''db_host'')"
    using from_other by metis
  from b pr q1 there q2 from_other absent show ?thesis by blast
qed

lemma host0_env: "Environ host0 = [''PATH=/usr/bin'', ''APP_DB_HOST=localhost'', ''APP_PORT=8080'']"
  by (simp add: host0_def)

lemma host0_unset_env: "Environ host0_unset = [''PATH=/usr/bin'', ''APP_PORT=8080'']"
  by (simp add: host0_unset_def host0_def os_Unsetenv_def entry_name_def)

lemma provider_app_bindings:
  "bindings provider_app ''PATH'' = None"
  "bindings provider_app ''APP_DB_HOST'' = Some ''db_host''"
  "bindings provider_app ''APP_PORT'' = Some ''port''"
  "env_priority provider_app = 7"
  by (code_simp)+

text \<open>
  On the concrete host: the first query lists \<open>db_host\<close> and \<open>port\<close>, the query after the
  variable is unset lists \<open>port\<close> alone.
\<close>

theorem C8_witness:
  "''APP_DB_HOST=localhost'' \<in> set (Environ host0) \<and>
   list_all (\<lambda>e. CHR ''='' \<in> set e) (Environ host0) \<and>
   bindings provider_app ''APP_DB_HOST'' = Some ''db_host'' \<and>
   EnvVariableProvider_Items host0 provider_app =
     Inr ((ItemList [\<lparr>key = ''db_host'', value' = ''localhost'', priority = 7\<rparr>,
                     \<lparr>key = ''port'', value' = ''8080'', priority = 7\<rparr>], None),
          provider_app\<lparr>inMemory := [\<lparr>key = ''db_host'', value' = ''localhost'', priority = 7\<rparr>,
                     \<lparr>key = ''port'', value' = ''8080'', priority = 7\<rparr>]\<rparr>) \<and>
   (\<exists>p2. EnvVariableProvider_Items host0_unset
           (provider_app\<lparr>inMemory := [\<lparr>key = ''db_host'', value' = ''localhost'', priority = 7\<rparr>,
                     \<lparr>key = ''port'', value' = ''8080'', priority = 7\<rparr>]\<rparr>) =
         Inr ((ItemList [\<lparr>key = ''port'', value' = ''8080'', priority = 7\<rparr>], None), p2))"
proof -
  have a: "''APP_DB_HOST=localhost'' \<in> set (Environ host0)"
    by (simp add: host0_env)
  have wf: "\<forall>e \<in> set (Environ host0). CHR ''='' \<in> set e"
    by (simp add: host0_env)
  have pi: "produced_items (Environ host0) provider_app =
      [\<lparr>key = ''db_host'', value' = ''localhost'', priority = 7\<rparr>,
       \<lparr>key = ''port'', value' = ''8080'', priority = 7\<rparr>]"
    by (simp add: host0_env produced_items_def map_filter_simps entry_name_def entry_value_def
        provider_app_bindings)
  have pi3: "produced_items (Environ host0_unset) provider_app =
      [\<lparr>key = ''port'', value' = ''8080'', priority = 7\<rparr>]"
    by (simp add: host0_unset_env produced_items_def map_filter_simps entry_name_def entry_value_def
        provider_app_bindings)
  have h3: "host0_unset = host0\<lparr>Environ := os_Unsetenv ''APP_DB_HOST'' (Environ host0)\<rparr>"
    by (simp add: host0_unset_def)
  from C8_automatic_binding_live_environment [OF a provider_app_def wf refl h3]
  show ?thesis
    using a wf by (simp add: pi pi3 list_all_iff)
qed

section \<open>EnvVariableProvider: registration\<close>

lemma EnvVariable_char:
  "EnvVariable h s opts w =
     (if providers (stores w s) ''environ'' \<noteq> None \<and> \<not> allowProviderOverride (stores w s)
      then Inl (Panic ''conflict on configuration provider: environ'')
      else Inr (length (envprovs w),
                upd_store s (\<lambda>st. st\<lparr>providers := (providers st)(''environ'' \<mapsto> EnvVariableItems (length (envprovs w)))\<rparr>)
                  (w\<lparr>envprovs := envprovs w @
                        [fold (apply_option h) opts \<lparr>inMemory = [], bindings = Map.empty, env_priority = 0\<rparr>]\<rparr>)))"
  by (simp add: EnvVariable_def RegisterProvider_def Let_def upd_store_def)

text \<open>
  C10. Whatever the options and the host, \<open>EnvVariable\<close> registers its provider under the
  one name \<open>environ\<close> and touches no other name. It returns exactly when that name is free
  or override mode is on. So on a store whose override mode is off, a second
  \<open>EnvVariable\<close> after a first one panics with the provider-name conflict.
\<close>

theorem C10_environ_name_collision:
  "(\<forall>a w1. EnvVariable h s opts w = Inr (a, w1) \<longrightarrow>
      providers (stores w1 s) ''environ'' = Some (EnvVariableItems a) \<and>
      (\<forall>n. n \<noteq> ''environ'' \<longrightarrow> providers (stores w1 s) n = providers (stores w s) n) \<and>
      (\<not> allowProviderOverride (stores w1 s) \<longrightarrow>
         EnvVariable h2 s opts2 w1 = Inl (Panic ''conflict on configuration provider: environ''))) \<and>
   (providers (stores w s) ''environ'' \<noteq> None \<and> \<not> allowProviderOverride (stores w s) \<longrightarrow>
      EnvVariable h s opts w = Inl (Panic ''conflict on configuration provider: environ'')) \<and>
   (providers (stores w s) ''environ'' = None \<or> allowProviderOverride (stores w s) \<longrightarrow>
      (\<exists>a w1. EnvVariable h s opts w = Inr (a, w1)))"
proof (intro conjI allI impI)
  fix a w1
  assume r: "EnvVariable h s opts w = Inr (a, w1)"
  then show "providers (stores w1 s) ''environ'' = Some (EnvVariableItems a)"
    by (auto simp add: EnvVariable_char split: if_splits)
  {
    fix n :: string assume "n \<noteq> ''environ''"
    with r show "providers (stores w1 s) n = providers (stores w s) n"
      by (auto simp add: EnvVariable_char split: if_splits)
  }
  assume "\<not> allowProviderOverride (stores w1 s)"
  with r show "EnvVariable h2 s opts2 w1 = Inl (Panic ''conflict on configuration provider: environ'')"
    by (auto simp add: EnvVariable_char split: if_splits)
next
  assume "providers (stores w s) ''environ'' \<noteq> None \<and> \<not> allowProviderOverride (stores w s)"
  then show "EnvVariable h s opts w = Inl (Panic ''conflict on configuration provider: environ'')"
    by (simp add: EnvVariable_char)
next
  assume "providers (stores w s) ''environ'' = None \<or> allowProviderOverride (stores w s)"
  then show "\<exists>a w1. EnvVariable h s opts w = Inr (a, w1)"
    by (auto simp add: EnvVariable_char)
qed

theorem C10_witness:
  "(\<exists>w1. EnvVariable host0 0 [WithAutomaticBinding ''APP'' ''_''] world0 = Inr (0, w1) \<and>
         providers (stores w1 0) ''environ'' = Some (EnvVariableItems 0) \<and>
         EnvVariable host0 0 [WithPriority 3] w1 =
           Inl (Panic ''conflict on configuration provider: environ''))"
proof -
  have free: "providers (stores world0 0) ''environ'' = None \<or> allowProviderOverride (stores world0 0)"
    by (simp add: world0_def zero_Store_def)
  from C10_environ_name_collision [of host0 0 "[WithAutomaticBinding ''APP'' ''_'']" world0 host0 "[WithPriority 3]"] free
  obtain a w1 where r: "EnvVariable host0 0 [WithAutomaticBinding ''APP'' ''_''] world0 = Inr (a, w1)"
    by blast
  have a: "a = 0" and off: "\<not> allowProviderOverride (stores w1 0)"
    using r by (auto simp add: EnvVariable_char world0_def zero_Store_def split: if_splits)
  from C10_environ_name_collision [of host0 0 "[WithAutomaticBinding ''APP'' ''_'']" world0 host0 "[WithPriority 3]"] r off a
  show ?thesis by blast
qed

section \<open>FileTree\<close>

lemma readItem_char:
  "readItem h path basename itemKey =
     (case ReadFile h path of
        Inl err \<Rightarrow> Inl err
      | Inr content \<Rightarrow> Inr (NewItem itemKey content (file_priority h basename)))"
  by (cases "ReadFile h path") (simp_all add: readItem_def file_priority_def Let_def)

lemma readItem_ok:
  "\<not> isl (ReadFile h path) \<Longrightarrow>
   readItem h path basename itemKey = Inr (NewItem itemKey (content_of h path) (file_priority h basename))"
  by (cases "ReadFile h path") (simp_all add: readItem_char content_of_def)

lemma readItem_fail:
  "ReadFile h path = Inl e \<Longrightarrow> readItem h path basename itemKey = Inl e"
  by (simp add: readItem_char)

lemma browseDir_loop_ok:
  "subdir_ok h path gs \<Longrightarrow>
   browseDir_loop h acc path base gs = (acc @ subdir_items h path base gs, None)"
  by (induction gs arbitrary: acc)
     (simp_all add: subdir_ok_def subdir_items_def Let_def readItem_ok)

lemma browseDir_loop_fail:
  "\<not> subdir_ok h path gs \<Longrightarrow> \<exists>its e. browseDir_loop h acc path base gs = (its, Some e)"
proof (induction gs arbitrary: acc)
  case Nil
  then show ?case by (simp add: subdir_ok_def)
next
  case (Cons g gs)
  show ?case
  proof (cases "IsDir g")
    case True
    then show ?thesis by (simp add: Let_def)
  next
    case False
    show ?thesis
    proof (cases "ReadFile h (Join h path (Name g))")
      case (Inl e)
      with False show ?thesis by (simp add: Let_def readItem_fail)
    next
      case (Inr c)
      with False Cons.prems have "\<not> subdir_ok h path gs"
        by (simp add: subdir_ok_def)
      from Cons.IH [OF this] False Inr show ?thesis
        by (simp add: Let_def readItem_char)
    qed
  qed
qed


lemma browseDir_ok:
  "\<not> isl (ReadDir h path) \<Longrightarrow> subdir_ok h path (listing h path) \<Longrightarrow>
   browseDir h acc path base = (acc @ subdir_items h path base (listing h path), None)"
  by (cases "ReadDir h path") (simp_all add: browseDir_def listing_def browseDir_loop_ok)

lemma browseDir_fail:
  "isl (ReadDir h path) \<or> \<not> subdir_ok h path (listing h path) \<Longrightarrow>
   \<exists>its e. browseDir h acc path base = (its, Some e)"
  by (cases "ReadDir h path") (auto simp add: browseDir_def listing_def browseDir_loop_fail)

lemma FileTree_loop_ok:
  "tree_ok h d files \<Longrightarrow> FileTree_loop h d acc files = (acc @ tree_items h d files, None)"
  by (induction files arbitrary: acc)
     (simp_all add: tree_ok_def tree_items_def Let_def readItem_ok browseDir_ok)

lemma FileTree_loop_fail:
  "\<not> tree_ok h d files \<Longrightarrow> \<exists>its e. FileTree_loop h d acc files = (its, Some e)"
proof (induction files arbitrary: acc)
  case Nil
  then show ?case by (simp add: tree_ok_def)
next
  case (Cons f files)
  let ?p = "Join h d (Name f)"
  show ?case
  proof (cases "IsDir f")
    case True
    show ?thesis
    proof (cases "isl (ReadDir h ?p) \<or> \<not> subdir_ok h ?p (listing h ?p)")
      case True
      from browseDir_fail [OF this, of acc "Name f"] \<open>IsDir f\<close> show ?thesis
        by (auto simp add: Let_def)
    next
      case False
      with \<open>IsDir f\<close> Cons.prems have "\<not> tree_ok h d files"
        by (simp add: tree_ok_def)
      from Cons.IH [OF this] False \<open>IsDir f\<close> show ?thesis
        by (simp add: Let_def browseDir_ok)
    qed
  next
    case False
    show ?thesis
    proof (cases "ReadFile h ?p")
      case (Inl e)
      with False show ?thesis by (simp add: Let_def readItem_fail)
    next
      case (Inr c)
      with False Cons.prems have "\<not> tree_ok h d files"
        by (simp add: tree_ok_def)
      from Cons.IH [OF this] False Inr show ?thesis
        by (simp add: Let_def readItem_char)
    qed
  qed
qed



lemma fold_Add:
  "a < length (inmems w) \<Longrightarrow>
   fold (\<lambda>it. Add a [it]) items w = w\<lparr>inmems := (inmems w)[a := inmems w ! a @ items]\<rparr>"
proof (induction items arbitrary: w)
  case Nil
  then show ?case by simp
next
  case (Cons it items)
  have "a < length (inmems (Add a [it] w))" using Cons.prems by (simp add: Add_def)
  from Cons.IH [OF this] Cons.prems show ?case
    by (simp add: Add_def)
qed

lemma InMemory_char:
  "InMemory s name w =
     (if providers (stores w s) name \<noteq> None \<and> \<not> allowProviderOverride (stores w s)
      then Inl (Panic (''conflict on configuration provider: '' @ name))
      else Inr (length (inmems w),
                upd_store s (\<lambda>st. st\<lparr>providers := (providers st)(name \<mapsto> InMemoryItems (length (inmems w)))\<rparr>)
                  (w\<lparr>inmems := inmems w @ [[]]\<rparr>)))"
  by (simp add: InMemory_def RegisterProvider_def Let_def upd_store_def)

lemma ErrorProvider_char:
  "ErrorProvider s name err w =
     (if providers (stores w s) name \<noteq> None \<and> \<not> allowProviderOverride (stores w s)
      then Inl (Panic (''conflict on configuration provider: '' @ name))
      else Inr (upd_store s (\<lambda>st. st\<lparr>providers := (providers st)(name \<mapsto> ErrorFn err)\<rparr>) w))"
  by (simp add: ErrorProvider_def RegisterProvider_def)

lemma FileTree_ok:
  assumes d: "dirname \<noteq> []" and ls: "ReadDir h dirname = Inr files"
      and ok: "tree_ok h dirname files"
  shows "FileTree h s dirname w =
           (if providers (stores w 0) (''filetree:'' @ dirname) \<noteq> None \<and>
               \<not> allowProviderOverride (stores w 0)
            then Inl (Panic (''conflict on configuration provider: '' @ ''filetree:'' @ dirname))
            else Inr (upd_store 0
                   (\<lambda>st. st\<lparr>providers := (providers st)(''filetree:'' @ dirname \<mapsto>
                                               InMemoryItems (length (inmems w)))\<rparr>)
                   (w\<lparr>inmems := inmems w @ [tree_items h dirname files]\<rparr>)))"
proof -
  have loop: "FileTree_loop h dirname [] files = (tree_items h dirname files, None)"
    using FileTree_loop_ok [OF ok, of "[]"] by simp
  show ?thesis
  proof (cases "providers (stores w 0) (''filetree:'' @ dirname) \<noteq> None \<and>
               \<not> allowProviderOverride (stores w 0)")
    case True
    then show ?thesis
      using d ls loop by (simp add: FileTree_def InMemory_char Let_def)
  next
    case False
    let ?w1 = "upd_store 0
                   (\<lambda>st. st\<lparr>providers := (providers st)(''filetree:'' @ dirname \<mapsto>
                                               InMemoryItems (length (inmems w)))\<rparr>)
                   (w\<lparr>inmems := inmems w @ [[]]\<rparr>)"
    have a: "length (inmems w) < length (inmems ?w1)" by simp
    have "fold (\<lambda>it. Add (length (inmems w)) [it]) (tree_items h dirname files) ?w1 =
          ?w1\<lparr>inmems := (inmems ?w1)[length (inmems w) := inmems ?w1 ! length (inmems w) @ tree_items h dirname files]\<rparr>"
      using a by (rule fold_Add)
    also have "\<dots> = upd_store 0
                   (\<lambda>st. st\<lparr>providers := (providers st)(''filetree:'' @ dirname \<mapsto>
                                               InMemoryItems (length (inmems w)))\<rparr>)
                   (w\<lparr>inmems := inmems w @ [tree_items h dirname files]\<rparr>)"
      by (simp add: upd_store_def)
    finally show ?thesis
      using False d ls loop by (auto simp add: FileTree_def InMemory_char Let_def)
  qed
qed

lemma FileTree_fail:
  assumes d: "dirname \<noteq> []" and ls: "ReadDir h dirname = Inr files"
      and bad: "\<not> tree_ok h dirname files"
  shows "\<exists>its e. FileTree_loop h dirname [] files = (its, Some e) \<and>
           FileTree h s dirname w = ErrorProvider s (''filetree:'' @ dirname) (Some e) w"
proof -
  from FileTree_loop_fail [OF bad, of "[]"]
  obtain its e where "FileTree_loop h dirname [] files = (its, Some e)" by blast
  then show ?thesis using d ls by (simp add: FileTree_def Let_def)
qed

text \<open>
  C2. For a directory that \<open>FileTree\<close> lists and loads (every plain file can be read,
  every subdirectory can be listed and holds readable plain files only), the items are
  \<open>tree_items\<close>, in the order of the listing: each top-level plain file yields one item
  keyed by its base name, each file inside a first-level subdirectory yields one item keyed
  by the subdirectory's name, there is no other item, and the priority of an item is 10
  when the first character of the originating file's own base name is upper-case and 5
  otherwise. The in-memory provider holding these items is registered under
  \<open>filetree:<dirname>\<close> in \<open>_store\<close>, and a query of it returns them.
\<close>

theorem C2_FileTree_items:
  assumes d: "dirname \<noteq> []" and ls: "ReadDir h dirname = Inr files"
      and ok: "tree_ok h dirname files"
  shows "FileTree_loop h dirname [] files = (tree_items h dirname files, None) \<and>
         (\<forall>f \<in> set files. \<not> IsDir f \<longrightarrow>
            NewItem (Name f) (content_of h (Join h dirname (Name f))) (file_priority h (Name f))
              \<in> set (tree_items h dirname files)) \<and>
         (\<forall>f \<in> set files. IsDir f \<longrightarrow>
            (\<forall>g \<in> set (listing h (Join h dirname (Name f))).
               NewItem (Name f) (content_of h (Join h (Join h dirname (Name f)) (Name g)))
                 (file_priority h (Name g))
                 \<in> set (tree_items h dirname files))) \<and>
         length (tree_items h dirname files) =
           (\<Sum>f \<leftarrow> files. if IsDir f then length (listing h (Join h dirname (Name f))) else 1) \<and>
         (\<forall>n. file_priority h n =
            (if unicode_IsUpper (unicode_Upper h) (fst (utf8_DecodeRuneInString n)) then 10 else 5)) \<and>
         (providers (stores w 0) (''filetree:'' @ dirname) = None \<or>
          allowProviderOverride (stores w 0) \<longrightarrow>
            (\<exists>w'. FileTree h s dirname w = Inr w' \<and>
                  providers (stores w' 0) (''filetree:'' @ dirname) =
                    Some (InMemoryItems (length (inmems w))) \<and>
                  call_provider h2 (InMemoryItems (length (inmems w))) w' =
                    Inr ((ItemList (tree_items h dirname files), None), w')))"
proof -
  have a: "FileTree_loop h dirname [] files = (tree_items h dirname files, None)"
    using FileTree_loop_ok [OF ok, of "[]"] by simp
  have b: "\<forall>f \<in> set files. \<not> IsDir f \<longrightarrow>
            NewItem (Name f) (content_of h (Join h dirname (Name f))) (file_priority h (Name f))
              \<in> set (tree_items h dirname files)"
    by (auto simp add: tree_items_def)
  have c: "\<forall>f \<in> set files. IsDir f \<longrightarrow>
            (\<forall>g \<in> set (listing h (Join h dirname (Name f))).
               NewItem (Name f) (content_of h (Join h (Join h dirname (Name f)) (Name g)))
                 (file_priority h (Name g))
                 \<in> set (tree_items h dirname files))"
    by (auto simp add: tree_items_def subdir_items_def)
  have l: "length (tree_items h dirname files) =
           (\<Sum>f \<leftarrow> files. if IsDir f then length (listing h (Join h dirname (Name f))) else 1)"
    by (induction files) (simp_all add: tree_items_def subdir_items_def)
  have p: "\<forall>n. file_priority h n =
            (if unicode_IsUpper (unicode_Upper h) (fst (utf8_DecodeRuneInString n)) then 10 else 5)"
    by (simp add: file_priority_def)
  have r: "providers (stores w 0) (''filetree:'' @ dirname) = None \<or>
          allowProviderOverride (stores w 0) \<longrightarrow>
            (\<exists>w'. FileTree h s dirname w = Inr w' \<and>
                  providers (stores w' 0) (''filetree:'' @ dirname) =
                    Some (InMemoryItems (length (inmems w))) \<and>
                  call_provider h2 (InMemoryItems (length (inmems w))) w' =
                    Inr ((ItemList (tree_items h dirname files), None), w'))"
    by (auto simp add: FileTree_ok [OF d ls ok] call_provider_def InMemoryProvider_Items_def)
  from a b c l p r show ?thesis by blast
qed

lemma host_tree_cfg:
  "ReadDir host_tree ''cfg'' = Inr [\<lparr>Name = ''db'', IsDir = True, ModTime = 1\<rparr>,
                                    \<lparr>Name = ''port'', IsDir = False, ModTime = 1\<rparr>]"
  by (simp add: host_tree_def)

lemma host_tree_ok:
  "tree_ok host_tree ''cfg'' [\<lparr>Name = ''db'', IsDir = True, ModTime = 1\<rparr>,
                             \<lparr>Name = ''port'', IsDir = False, ModTime = 1\<rparr>]"
  by (simp add: tree_ok_def subdir_ok_def listing_def host_tree_def host0_def)

lemma host_tree_items:
  "tree_items host_tree ''cfg'' [\<lparr>Name = ''db'', IsDir = True, ModTime = 1\<rparr>,
                                \<lparr>Name = ''port'', IsDir = False, ModTime = 1\<rparr>] =
     [\<lparr>key = ''db'', value' = ''db1.example'', priority = 10\<rparr>,
      \<lparr>key = ''db'', value' = ''db2.example'', priority = 5\<rparr>,
      \<lparr>key = ''port'', value' = ''8080'', priority = 5\<rparr>]"
  by code_simp

text \<open>
  The directory \<open>cfg\<close>: its subdirectory \<open>db\<close> with the files \<open>Primary\<close> and \<open>replica\<close> yields
  two items keyed \<open>db\<close>, with priorities 10 and 5, followed by the item of the plain
  file \<open>port\<close>.
\<close>

theorem C2_witness:
  "tree_ok host_tree ''cfg'' [\<lparr>Name = ''db'', IsDir = True, ModTime = 1\<rparr>,
                             \<lparr>Name = ''port'', IsDir = False, ModTime = 1\<rparr>] \<and>
   (\<exists>w'. FileTree host_tree 0 ''cfg'' world0 = Inr w' \<and>
         providers (stores w' 0) ''filetree:cfg'' = Some (InMemoryItems 0) \<and>
         call_provider host_tree (InMemoryItems 0) w' =
           Inr ((ItemList [\<lparr>key = ''db'', value' = ''db1.example'', priority = 10\<rparr>,
                           \<lparr>key = ''db'', value' = ''db2.example'', priority = 5\<rparr>,
                           \<lparr>key = ''port'', value' = ''8080'', priority = 5\<rparr>], None), w'))"
proof -
  have d: "''cfg'' \<noteq> []" by simp
  have free: "providers (stores world0 0) (''filetree:'' @ ''cfg'') = None \<or>
              allowProviderOverride (stores world0 0)"
    by (simp add: world0_def zero_Store_def)
  have n: "length (inmems world0) = 0" by (simp add: world0_def)
  from C2_FileTree_items [OF d host_tree_cfg host_tree_ok, of world0 0 host_tree] free
  have "\<exists>w'. FileTree host_tree 0 ''cfg'' world0 = Inr w' \<and>
             providers (stores w' 0) (''filetree:'' @ ''cfg'') =
               Some (InMemoryItems (length (inmems world0))) \<and>
             call_provider host_tree (InMemoryItems (length (inmems world0))) w' =
               Inr ((ItemList (tree_items host_tree ''cfg''
                      [\<lparr>Name = ''db'', IsDir = True, ModTime = 1\<rparr>,
                       \<lparr>Name = ''port'', IsDir = False, ModTime = 1\<rparr>]), None), w')"
    by blast
  then show ?thesis
    using host_tree_ok unfolding host_tree_items n by simp
qed




section \<open>The polling loop\<close>

lemma tick_char:
  "tick h p w =
     (if rereads h p
      then (case readFile h (poll_filename p) (poll_fn p) of
              Inl err \<Rightarrow> (p\<lparr>poll_last := ModTime (projr (Stat h (poll_filename p)))\<rparr>, w)
            | Inr vals \<Rightarrow>
                (p\<lparr>poll_last := ModTime (projr (Stat h (poll_filename p)))\<rparr>,
                 NotifyWatchers (poll_store p) (w\<lparr>inmems := (inmems w)[poll_inmem p := vals]\<rparr>)))
      else (p, w))"
  by (cases "Stat h (poll_filename p)")
     (auto simp add: tick_def rereads_def Let_def split: sum.splits)

lemma poll_append:
  "poll (hs1 @ hs2) p w = (case poll hs1 p w of (p', w') \<Rightarrow> poll hs2 p' w')"
  by (induction hs1 arbitrary: p w) (simp_all split: prod.splits)

text \<open>
  C3, as the code has it. A tick that fails at any step (stat, read or decode) leaves the
  whole state as it was: the item set, the watcher channels and the registry are
  untouched and nothing is reported. The loop goes on with the remaining ticks, with the
  same file, decoder, provider and store. After a failed stat the goroutine's variables
  are unchanged, so the next tick repeats the check; after a failed read or decode
  \<open>last\<close> already holds the modification time just seen. A tick re-reads the file
  exactly when stat succeeds with a modification time after \<open>last\<close>, and a successful
  re-read replaces the item set.
\<close>

theorem C3_failed_tick_is_skipped:
  assumes fails: "tick_fails h p"
  shows "snd (tick h p w) = w \<and>
         poll (h # hs) p w = poll hs (fst (tick h p w)) w \<and>
         poll_filename (fst (tick h p w)) = poll_filename p \<and>
         poll_fn (fst (tick h p w)) = poll_fn p \<and>
         poll_inmem (fst (tick h p w)) = poll_inmem p \<and>
         poll_store (fst (tick h p w)) = poll_store p \<and>
         (isl (Stat h (poll_filename p)) \<longrightarrow> fst (tick h p w) = p) \<and>
         (\<not> isl (Stat h (poll_filename p)) \<longrightarrow>
            fst (tick h p w) = p\<lparr>poll_last := ModTime (projr (Stat h (poll_filename p)))\<rparr>) \<and>
         (\<forall>h2 p2 w2. \<not> rereads h2 p2 \<longrightarrow> tick h2 p2 w2 = (p2, w2)) \<and>
         (\<forall>h2 p2 w2 vals. rereads h2 p2 \<and> readFile h2 (poll_filename p2) (poll_fn p2) = Inr vals \<longrightarrow>
            inmems (snd (tick h2 p2 w2)) = (inmems w2)[poll_inmem p2 := vals])"
proof -
  have t: "tick h p w =
             (if isl (Stat h (poll_filename p)) then (p, w)
              else (p\<lparr>poll_last := ModTime (projr (Stat h (poll_filename p)))\<rparr>, w))"
    using fails
    by (cases "Stat h (poll_filename p)"; cases "readFile h (poll_filename p) (poll_fn p)")
       (auto simp add: tick_fails_def tick_char rereads_def)
  have a: "snd (tick h p w) = w" by (simp add: t)
  have b: "poll (h # hs) p w = poll hs (fst (tick h p w)) w"
    by (simp add: t)
  have c: "poll_filename (fst (tick h p w)) = poll_filename p \<and>
         poll_fn (fst (tick h p w)) = poll_fn p \<and>
         poll_inmem (fst (tick h p w)) = poll_inmem p \<and>
         poll_store (fst (tick h p w)) = poll_store p"
    by (simp add: t)
  have d: "isl (Stat h (poll_filename p)) \<longrightarrow> fst (tick h p w) = p"
    by (simp add: t)
  have e: "\<not> isl (Stat h (poll_filename p)) \<longrightarrow>
            fst (tick h p w) = p\<lparr>poll_last := ModTime (projr (Stat h (poll_filename p)))\<rparr>"
    by (simp add: t)
  have f: "\<forall>h2 p2 w2. \<not> rereads h2 p2 \<longrightarrow> tick h2 p2 w2 = (p2, w2)"
    by (simp add: tick_char)
  have g: "\<forall>h2 p2 w2 vals. rereads h2 p2 \<and> readFile h2 (poll_filename p2) (poll_fn p2) = Inr vals \<longrightarrow>
            inmems (snd (tick h2 p2 w2)) = (inmems w2)[poll_inmem p2 := vals]"
    by (simp add: tick_char NotifyWatchers_def)
  from a b c d e f g show ?thesis by blast
qed

lemma world_file_eq:
  "Store_file host_v1 0 ''app.yaml'' True None world0 = Inr world_file"
  by (simp add: world_file_def Store_file_def readFile_def host_v1_def host0_def InMemory_def
      RegisterProvider_def world0_def zero_Store_def Let_def)

lemma world_file_fields:
  "inmems world_file = [[item_v1]]"
  "pollers world_file = [poller0]"
  "providers (stores world_file 0) ''file:app.yaml'' = Some (InMemoryItems 0)"
  by (simp_all add: world_file_def Store_file_def readFile_def host_v1_def host0_def InMemory_def
      RegisterProvider_def world0_def zero_Store_def Let_def Add_def LogInfo_def upd_store_def poller0_def)

lemma torn_facts:
  "Stat host_torn ''app.yaml'' = Inr \<lparr>Name = ''app.yaml'', IsDir = False, ModTime = 200\<rparr>"
  "readFile host_torn ''app.yaml'' None = Inl (Error ''yaml: unmarshal error'')"
  "Stat host_v2 ''app.yaml'' = Inr \<lparr>Name = ''app.yaml'', IsDir = False, ModTime = 200\<rparr>"
  "readFile host_v2 ''app.yaml'' None = Inr [item_v2]"
  "Stat host_gone ''app.yaml'' = Inl (Error ''no such file or directory'')"
  by (simp_all add: host_torn_def host_v2_def host_v1_def host0_def host_gone_def readFile_def)

lemma tick_torn: "tick host_torn poller0 world_file = (poller0\<lparr>poll_last := 200\<rparr>, world_file)"
  by (simp add: tick_def torn_facts poller0_def)

lemma tick_v2_after: "tick host_v2 (poller0\<lparr>poll_last := 200\<rparr>) world_file = (poller0\<lparr>poll_last := 200\<rparr>, world_file)"
  by (simp add: tick_def torn_facts poller0_def)

lemma tick_v2_fresh:
  "inmems (snd (tick host_v2 poller0 world_file)) = [[item_v2]]"
  by (simp add: tick_def torn_facts poller0_def NotifyWatchers_def world_file_fields)

lemma rereads_facts:
  "rereads host_torn poller0"
  "rereads host_v2 poller0"
  "\<not> rereads host_v2 (poller0\<lparr>poll_last := 200\<rparr>)"
  "\<not> rereads host_gone poller0"
  by (simp_all add: rereads_def torn_facts poller0_def)

text \<open>
  The claim's retry does not hold after a failed decode. The file is seen at time 200
  while it does not decode; at the next ticks it decodes, with the same modification
  time. A goroutine that had not met the failure would re-read it, but after the failed
  tick \<open>last\<close> is 200: the file is not read again and the items stay those of \<open>v1\<close>.
\<close>

theorem C3_counterexample:
  "tick_fails host_torn poller0 \<and>
   rereads host_v2 poller0 \<and>
   \<not> rereads host_v2 (fst (tick host_torn poller0 world_file)) \<and>
   readFile host_v2 ''app.yaml'' None = Inr [item_v2] \<and>
   inmems (snd (poll [host_v2] poller0 world_file)) = [[item_v2]] \<and>
   inmems (snd (poll [host_torn, host_v2] poller0 world_file)) = [[item_v1]] \<and>
   inmems (snd (poll [host_torn, host_v2, host_v2, host_v2] poller0 world_file)) = [[item_v1]]"
proof -
  have "tick_fails host_torn poller0"
    using rereads_facts(1) torn_facts(2) by (simp add: tick_fails_def poller0_def)
  moreover have "inmems (snd (poll [host_v2] poller0 world_file)) = [[item_v2]]"
    using tick_v2_fresh by (auto split: prod.splits)
  moreover have "inmems (snd (poll [host_torn, host_v2] poller0 world_file)) = [[item_v1]]"
    by (simp add: tick_torn tick_v2_after world_file_fields)
  moreover have "inmems (snd (poll [host_torn, host_v2, host_v2, host_v2] poller0 world_file)) = [[item_v1]]"
    by (simp add: tick_torn tick_v2_after world_file_fields)
  ultimately show ?thesis
    by (simp add: rereads_facts torn_facts tick_torn)
qed

theorem C3_witness:
  "tick_fails host_torn poller0 \<and> tick_fails host_gone poller0 \<and>
   tick host_gone poller0 world_file = (poller0, world_file) \<and>
   tick host_torn poller0 world_file = (poller0\<lparr>poll_last := 200\<rparr>, world_file) \<and>
   poll [host_gone, host_torn, host_v2] poller0 world_file =
     poll [host_v2] (poller0\<lparr>poll_last := 200\<rparr>) world_file \<and>
   inmems (snd (poll [host_gone, host_v2] poller0 world_file)) = [[item_v2]]"
proof -
  have f1: "tick_fails host_torn poller0" and f2: "tick_fails host_gone poller0"
    using rereads_facts(1) torn_facts(2,5) by (simp_all add: tick_fails_def poller0_def)
  have fn: "poll_filename poller0 = ''app.yaml''" by (simp add: poller0_def)
  have g: "tick host_gone poller0 world_file = (poller0, world_file)"
    using C3_failed_tick_is_skipped [OF f2, of world_file "[]"]
    by (simp add: torn_facts fn prod_eq_iff)
  have t: "tick host_torn poller0 world_file = (poller0\<lparr>poll_last := 200\<rparr>, world_file)"
    using C3_failed_tick_is_skipped [OF f1, of world_file "[]"]
    by (simp add: torn_facts fn prod_eq_iff)
  have p1: "poll [host_gone, host_torn, host_v2] poller0 world_file =
     poll [host_v2] (poller0\<lparr>poll_last := 200\<rparr>) world_file"
    by (simp add: g t)
  have p2: "inmems (snd (poll [host_gone, host_v2] poller0 world_file)) = [[item_v2]]"
    using tick_v2_fresh by (auto simp add: g split: prod.splits)
  from f1 f2 g t p1 p2 show ?thesis by blast
qed

section \<open>InitFromEnvironment\<close>

lemma join_sep_Cons: "join_sep sep ((c # a) # ps) = c # join_sep sep (a # ps)"
  by (cases ps) simp_all

lemma join_Split: "join_sep sep (strings_Split s sep) = s"
proof (induction s)
  case Nil
  then show ?case by simp
next
  case (Cons c cs)
  then show ?case
    by (cases "strings_Split cs sep"; cases "c = sep") (auto simp add: join_sep_Cons split: list.splits)
qed

lemma Split_nonempty: "strings_Split s sep \<noteq> []"
  by (induction s) (auto split: list.splits)

lemma Split_no_sep: "p \<in> set (strings_Split s sep) \<Longrightarrow> sep \<notin> set p"
  by (induction s arbitrary: p) (auto split: list.splits if_splits)

lemma Split_length: "length (strings_Split s sep) = Suc (count_list s sep)"
  by (induction s) (auto split: list.splits simp add: Split_nonempty)

lemma strip_prefix_None:
  "strip_prefix_of encs s = None \<longleftrightarrow>
     \<not> (\<exists>e \<in> set encs. e \<noteq> [] \<and> length e \<le> length s \<and> take (length e) s = e)"
  by (auto simp add: strip_prefix_of_def find_None_iff)

lemma strip_prefix_Some:
  "strip_prefix_of encs s = Some s' \<Longrightarrow> \<exists>e \<in> set encs. e \<noteq> [] \<and> s = e @ s'"
proof -
  assume "strip_prefix_of encs s = Some s'"
  then obtain e where e: "find (\<lambda>e. e \<noteq> [] \<and> length e \<le> length s \<and> take (length e) s = e) encs = Some e"
    and s': "s' = drop (length e) s"
    by (auto simp add: strip_prefix_of_def)
  from e have "e \<in> set encs" and "e \<noteq> []" and "take (length e) s = e"
    by (auto simp add: find_Some_iff)
  moreover have "s = take (length e) s @ drop (length e) s" by simp
  ultimately show ?thesis using s' by metis
qed

lemma trim_left_none: "strip_prefix_of encs (trim_left encs s) = None"
  by (induction encs s rule: trim_left.induct) (simp split: option.splits)

lemma trim_left_run:
  "\<exists>es. set es \<subseteq> set encs \<and> s = concat es @ trim_left encs s"
proof (induction encs s rule: trim_left.induct)
  case (1 encs s)
  show ?case
  proof (cases "strip_prefix_of encs s")
    case None
    then have "set [] \<subseteq> set encs \<and> s = concat [] @ trim_left encs s" by simp
    then show ?thesis by blast
  next
    case (Some s')
    from strip_prefix_Some [OF Some] obtain e where e: "e \<in> set encs" "s = e @ s'" by blast
    from "1.IH" [OF Some] obtain es where es: "set es \<subseteq> set encs" "s' = concat es @ trim_left encs s'"
      by blast
    have "trim_left encs s = trim_left encs s'" using Some by simp
    with e es have "set (e # es) \<subseteq> set encs \<and> s = concat (e # es) @ trim_left encs s"
      by simp
    then show ?thesis by blast
  qed
qed

lemma space_encodings_nonempty: "[] \<notin> set space_encodings"
  by (simp add: space_encodings_def)

lemma TrimSpace_trimmed: "trimmed_of raw (strings_TrimSpace raw)"
proof -
  let ?E = space_encodings
  let ?E' = "map rev space_encodings"
  let ?t = "trim_left ?E raw"
  let ?n = "strings_TrimSpace raw"
  have n: "?n = rev (trim_left ?E' (rev ?t))"
    by (simp add: strings_TrimSpace_def strings_TrimRightSpace_def strings_TrimLeftSpace_def)
  from trim_left_run [of ?E raw] obtain es where
    es: "set es \<subseteq> set ?E" "raw = concat es @ ?t" by blast
  from trim_left_run [of ?E' "rev ?t"] obtain es' where
    es': "set es' \<subseteq> set ?E'" "rev ?t = concat es' @ trim_left ?E' (rev ?t)" by blast
  have "rev (rev ?t) = rev (concat es' @ trim_left ?E' (rev ?t))"
    using es'(2) by simp
  then have t: "?t = ?n @ concat (map rev (rev es'))"
    by (simp add: n rev_concat)
  have "set (map rev (rev es')) \<subseteq> set ?E"
    using es'(1) by auto
  then have r: "is_space_run (concat (map rev (rev es')))"
    unfolding is_space_run_def by blast
  have l: "is_space_run (concat es)"
    unfolding is_space_run_def using es(1) by blast
  have raw: "raw = concat es @ ?n @ concat (map rev (rev es'))"
    using es(2) t by simp
  have no_pre_t: "strip_prefix_of ?E ?t = None" by (rule trim_left_none)
  have no_pre: "\<not> starts_with_space ?n"
  proof
    assume "starts_with_space ?n"
    then obtain e where e: "e \<in> set ?E" "length e \<le> length ?n" "take (length e) ?n = e"
      by (auto simp add: starts_with_space_def strings_HasPrefix_def)
    have ne: "e \<noteq> []" using e(1) space_encodings_nonempty by auto
    have "length e \<le> length ?t" using e(2) t by (metis length_append trans_le_add1)
    moreover have "take (length e) ?t = e"
      using e(2,3) t by (metis take_append diff_is_0_eq take_0 append_Nil2)
    ultimately show False
      using no_pre_t e(1) ne unfolding strip_prefix_None by blast
  qed
  have "strip_prefix_of ?E' (rev ?n) = None"
    unfolding n rev_rev_ident by (rule trim_left_none)
  then have no_suf: "\<not> ends_with_space ?n"
    using space_encodings_nonempty
    by (auto simp add: strip_prefix_None ends_with_space_def strings_HasPrefix_def)
  from raw l r no_pre no_suf show ?thesis
    unfolding trimmed_of_def by blast
qed

lemma directive_parts_no_colon:
  "CHR '':'' \<notin> set c \<Longrightarrow> directive_parts c = (strings_TrimSpace c, strings_TrimSpace [])"
  by (simp add: directive_parts_def strings_SplitN2_def Let_def)

lemma directive_parts_colon:
  assumes "CHR '':'' \<in> set c"
  shows "\<exists>n a. c = n @ '':'' @ a \<and> CHR '':'' \<notin> set n \<and>
               directive_parts c = (strings_TrimSpace n, strings_TrimSpace a)"
proof -
  let ?n = "takeWhile (\<lambda>x. x \<noteq> CHR '':'') c"
  let ?d = "dropWhile (\<lambda>x. x \<noteq> CHR '':'') c"
  have d: "?d \<noteq> []" using assms by (simp add: dropWhile_eq_Nil_conv)
  then have "hd ?d = CHR '':''" using hd_dropWhile [of "\<lambda>x. x \<noteq> CHR '':''" c] by simp
  with d have "?d = CHR '':'' # tl ?d" by (metis list.collapse)
  then have "c = ?n @ '':'' @ tl ?d"
    using takeWhile_dropWhile_id [of "\<lambda>x. x \<noteq> CHR '':''" c] by simp
  moreover have "CHR '':'' \<notin> set ?n"
    using set_takeWhileD by fastforce
  moreover have "directive_parts c = (strings_TrimSpace ?n, strings_TrimSpace (tl ?d))"
    using assms by (simp add: directive_parts_def strings_SplitN2_def Let_def)
  ultimately show ?thesis by blast
qed

lemma TrimSpace_empty: "strings_TrimSpace [] = []"
  by (simp add: strings_TrimSpace_def strings_TrimRightSpace_def strings_TrimLeftSpace_def
      strip_prefix_of_def find_None_iff[THEN iffD2])

lemma init_directive_unregistered:
  "directive_parts c = (name, arg) \<Longrightarrow> providerFactories w name = None \<Longrightarrow>
   init_directive h s c w =
     ErrorProvider s (name @ '':'' @ arg)
       (Some (Error ''failed to instantiate provider factory'')) w"
  by (simp add: init_directive_def lookup_factory_def)

lemma call_ErrorFn: "call_provider h (ErrorFn err) w = Inr ((ItemList [], err), w)"
  by (simp add: call_provider_def)

text \<open>
  C4, as the code has it. With \<open>cfg\<close> the value of \<open>CONFIGURATION_FROM\<close>: when it is unset
  (or empty) the call changes nothing. Otherwise the call runs the directives of
  \<open>strings.Split(cfg, ",")\<close> in order, stopping at the first that panics, and these are
  the pieces of \<open>cfg\<close> between its commas: joined by commas they give \<open>cfg\<close> back and none
  holds a comma. A directive without a colon is a factory name with the empty argument;
  one with a colon is cut at its first colon into name and argument; both parts are
  trimmed of the white space around them. For a directive whose factory name is not
  registered the loop body is the call of \<open>ErrorProvider\<close> under
  \<open><factoryName>:<argument>\<close> with the error "failed to instantiate provider factory":
  when that name is free (or override mode is on) the provider map then holds, under that
  name, a provider whose every query fails with that error; when the name is taken and
  override mode is off the call panics with the provider-name conflict.
\<close>

theorem C4_InitFromEnvironment_directives:
  assumes cfg: "cfg = os_Getenv (Environ h) ConfigEnvVar"
  shows "(cfg = [] \<longrightarrow> InitFromEnvironment h s w = Inr w) \<and>
         (cfg \<noteq> [] \<longrightarrow>
            InitFromEnvironment h s w = init_loop h s (strings_Split cfg (CHR '','')) w) \<and>
         join_sep (CHR '','') (strings_Split cfg (CHR '','')) = cfg \<and>
         (\<forall>c \<in> set (strings_Split cfg (CHR '','')). CHR '','' \<notin> set c) \<and>
         (\<forall>c cs w1. init_loop h s (c # cs) w1 =
            (case init_directive h s c w1 of Inl p \<Rightarrow> Inl p | Inr w2 \<Rightarrow> init_loop h s cs w2)) \<and>
         (\<forall>c. CHR '':'' \<notin> set c \<longrightarrow> directive_parts c = (strings_TrimSpace c, [])) \<and>
         (\<forall>c. CHR '':'' \<in> set c \<longrightarrow>
            (\<exists>n a. c = n @ '':'' @ a \<and> CHR '':'' \<notin> set n \<and>
                   directive_parts c = (strings_TrimSpace n, strings_TrimSpace a))) \<and>
         (\<forall>raw. trimmed_of raw (strings_TrimSpace raw)) \<and>
         (\<forall>c w1 name arg.
            directive_parts c = (name, arg) \<and> providerFactories w1 name = None \<longrightarrow>
              init_directive h s c w1 =
                ErrorProvider s (name @ '':'' @ arg)
                  (Some (Error ''failed to instantiate provider factory'')) w1 \<and>
              (providers (stores w1 s) (name @ '':'' @ arg) = None \<or>
               allowProviderOverride (stores w1 s) \<longrightarrow>
                 (\<exists>w2. init_directive h s c w1 = Inr w2 \<and>
                    providers (stores w2 s) (name @ '':'' @ arg) =
                      Some (ErrorFn (Some (Error ''failed to instantiate provider factory'')))))) \<and>
         (\<forall>c w1 name arg.
            directive_parts c = (name, arg) \<and> providerFactories w1 name = None \<and>
            providers (stores w1 s) (name @ '':'' @ arg) \<noteq> None \<and>
            \<not> allowProviderOverride (stores w1 s) \<longrightarrow>
              init_directive h s c w1 =
                Inl (Panic (''conflict on configuration provider: '' @ name @ '':'' @ arg))) \<and>
         (\<forall>h2 w2 e. call_provider h2 (ErrorFn (Some e)) w2 = Inr ((ItemList [], Some e), w2))"
proof -
  have a: "cfg = [] \<longrightarrow> InitFromEnvironment h s w = Inr w"
    by (simp add: InitFromEnvironment_def cfg)
  have b: "cfg \<noteq> [] \<longrightarrow>
            InitFromEnvironment h s w = init_loop h s (strings_Split cfg (CHR '','')) w"
    by (simp add: InitFromEnvironment_def cfg Let_def)
  have c: "join_sep (CHR '','') (strings_Split cfg (CHR '','')) = cfg"
    by (rule join_Split)
  have d: "\<forall>c \<in> set (strings_Split cfg (CHR '','')). CHR '','' \<notin> set c"
    using Split_no_sep by blast
  have e: "\<forall>c cs w1. init_loop h s (c # cs) w1 =
            (case init_directive h s c w1 of Inl p \<Rightarrow> Inl p | Inr w2 \<Rightarrow> init_loop h s cs w2)"
    by simp
  have f: "\<forall>c. CHR '':'' \<notin> set c \<longrightarrow> directive_parts c = (strings_TrimSpace c, [])"
    by (simp add: directive_parts_no_colon TrimSpace_empty)
  have g: "\<forall>c. CHR '':'' \<in> set c \<longrightarrow>
            (\<exists>n a. c = n @ '':'' @ a \<and> CHR '':'' \<notin> set n \<and>
                   directive_parts c = (strings_TrimSpace n, strings_TrimSpace a))"
    using directive_parts_colon by blast
  have i: "\<forall>raw. trimmed_of raw (strings_TrimSpace raw)"
    by (simp add: TrimSpace_trimmed)
  have j: "\<forall>c w1 name arg.
            directive_parts c = (name, arg) \<and> providerFactories w1 name = None \<longrightarrow>
              init_directive h s c w1 =
                ErrorProvider s (name @ '':'' @ arg)
                  (Some (Error ''failed to instantiate provider factory'')) w1 \<and>
              (providers (stores w1 s) (name @ '':'' @ arg) = None \<or>
               allowProviderOverride (stores w1 s) \<longrightarrow>
                 (\<exists>w2. init_directive h s c w1 = Inr w2 \<and>
                    providers (stores w2 s) (name @ '':'' @ arg) =
                      Some (ErrorFn (Some (Error ''failed to instantiate provider factory'')))))"
    by (auto simp add: init_directive_unregistered ErrorProvider_char)
  have j2: "\<forall>c w1 name arg.
            directive_parts c = (name, arg) \<and> providerFactories w1 name = None \<and>
            providers (stores w1 s) (name @ '':'' @ arg) \<noteq> None \<and>
            \<not> allowProviderOverride (stores w1 s) \<longrightarrow>
              init_directive h s c w1 =
                Inl (Panic (''conflict on configuration provider: '' @ name @ '':'' @ arg))"
    by (auto simp add: init_directive_unregistered ErrorProvider_char)
  have k: "\<forall>h2 w2 e. call_provider h2 (ErrorFn (Some e)) w2 = Inr ((ItemList [], Some e), w2)"
    by (simp add: call_ErrorFn)
  show ?thesis
    by (intro conjI) (rule a b c d e f g i j j2 k)+
qed

lemma world_init_eq: "init world0 = Inr world_init"
  by (simp add: world_init_def init_def New_def RegisterProviderFactory_def Clear_def world0_def
      upd_store_def Let_def)

lemma world_init_fields:
  "providerFactories world_init ''vault'' = None"
  "providerFactories world_init ''consul'' = None"
  "providerFactories world_init ''file'' = Some File_fn"
  "providerFactories world_init ''filelist'' = Some FileList_fn"
  "providerFactories world_init ''filetree'' = Some FileTree_fn"
  "providers (stores world_init 0) = Map.empty"
  "allowProviderOverride (stores world_init 0) = False"
  "inmems world_init = []"
  by (simp_all add: world_init_def init_def New_def RegisterProviderFactory_def Clear_def world0_def
      upd_store_def Let_def zero_Store_def)

lemma cfg_facts:
  "os_Getenv (Environ host_cfg) ConfigEnvVar = '' vault : kv/app ,consul''"
  "strings_Split '' vault : kv/app ,consul'' (CHR '','') = ['' vault : kv/app '', ''consul'']"
  "directive_parts '' vault : kv/app '' = (''vault'', ''kv/app'')"
  "directive_parts ''consul'' = (''consul'', [])"
  "os_Getenv (Environ host_dup) ConfigEnvVar = ''vault,vault''"
  "strings_Split ''vault,vault'' (CHR '','') = [''vault'', ''vault'']"
  "directive_parts ''vault'' = (''vault'', [])"
  "os_Getenv (Environ host0) ConfigEnvVar = []"
  by code_simp+

theorem C4_witness:
  "os_Getenv (Environ host0) ConfigEnvVar = [] \<and>
   InitFromEnvironment host0 0 world_init = Inr world_init \<and>
   os_Getenv (Environ host_cfg) ConfigEnvVar = '' vault : kv/app ,consul'' \<and>
   strings_Split '' vault : kv/app ,consul'' (CHR '','') = ['' vault : kv/app '', ''consul''] \<and>
   directive_parts '' vault : kv/app '' = (''vault'', ''kv/app'') \<and>
   directive_parts ''consul'' = (''consul'', []) \<and>
   (\<exists>w'. InitFromEnvironment host_cfg 0 world_init = Inr w' \<and>
      providers (stores w' 0) ''vault:kv/app'' =
        Some (ErrorFn (Some (Error ''failed to instantiate provider factory''))) \<and>
      providers (stores w' 0) ''consul:'' =
        Some (ErrorFn (Some (Error ''failed to instantiate provider factory''))))"
proof -
  let ?e = "Some (Error ''failed to instantiate provider factory'')"
  let ?w1 = "upd_store 0 (\<lambda>st. st\<lparr>providers := (providers st)(''vault:kv/app'' \<mapsto> ErrorFn ?e)\<rparr>) world_init"
  let ?w2 = "upd_store 0 (\<lambda>st. st\<lparr>providers := (providers st)(''consul:'' \<mapsto> ErrorFn ?e)\<rparr>) ?w1"
  note c4 = C4_InitFromEnvironment_directives [OF refl, of host_cfg 0 world_init]
  note c0 = C4_InitFromEnvironment_directives [OF refl, of host0 0 world_init]
  have unset: "InitFromEnvironment host0 0 world_init = Inr world_init"
    using c0 cfg_facts(8) by blast
  have loop: "InitFromEnvironment host_cfg 0 world_init =
                init_loop host_cfg 0 ['' vault : kv/app '', ''consul''] world_init"
    using c4 by (simp add: cfg_facts)
  have s1: "init_directive host_cfg 0 '' vault : kv/app '' world_init = Inr ?w1"
    using init_directive_unregistered [OF cfg_facts(3) world_init_fields(1), of host_cfg 0]
    by (simp add: ErrorProvider_char world_init_fields)
  have s2: "init_directive host_cfg 0 ''consul'' ?w1 = Inr ?w2"
    using init_directive_unregistered [OF cfg_facts(4), of ?w1 host_cfg 0]
    by (simp add: ErrorProvider_char world_init_fields)
  have r: "InitFromEnvironment host_cfg 0 world_init = Inr ?w2"
    by (simp add: loop s1 s2)
  have "providers (stores ?w2 0) ''vault:kv/app'' = Some (ErrorFn ?e) \<and>
        providers (stores ?w2 0) ''consul:'' = Some (ErrorFn ?e)"
    by simp
  with r unset cfg_facts show ?thesis by blast
qed

text \<open>
  A directive with an unregistered factory does not always end in a provider. In
  \<open>CONFIGURATION_FROM=consul, consul :\<close> both directives name the unregistered factory
  \<open>consul\<close> with the empty argument: the first registers the error provider
  \<open>consul:\<close>, the second panics on that name and \<open>InitFromEnvironment\<close> aborts.
\<close>

theorem C4_counterexample:
  "strings_Split (os_Getenv (Environ host_twice) ConfigEnvVar) (CHR '','') =
     [''consul'', '' consul :''] \<and>
   directive_parts ''consul'' = (''consul'', []) \<and>
   directive_parts '' consul :'' = (''consul'', []) \<and>
   providerFactories world_init ''consul'' = None \<and>
   init_directive host_twice 0 ''consul'' world_init = Inr world_consul \<and>
   providerFactories world_consul ''consul'' = None \<and>
   init_directive host_twice 0 '' consul :'' world_consul =
     Inl (Panic ''conflict on configuration provider: consul:'') \<and>
   InitFromEnvironment host_twice 0 world_init =
     Inl (Panic ''conflict on configuration provider: consul:'')"
proof -
  have env: "os_Getenv (Environ host_twice) ConfigEnvVar = ''consul, consul :''"
    by code_simp
  have sp: "strings_Split ''consul, consul :'' (CHR '','') = [''consul'', '' consul :'']"
    by code_simp
  have d1: "directive_parts ''consul'' = (''consul'', [])"
    and d2: "directive_parts '' consul :'' = (''consul'', [])"
    by code_simp+
  have nf: "providerFactories world_consul ''consul'' = None"
    by (simp add: world_consul_def world_init_fields)
  have s1: "init_directive host_twice 0 ''consul'' world_init = Inr world_consul"
    using init_directive_unregistered [OF d1 world_init_fields(2), of host_twice 0]
    by (simp add: ErrorProvider_char world_init_fields world_consul_def)
  have s2: "init_directive host_twice 0 '' consul :'' world_consul =
              Inl (Panic ''conflict on configuration provider: consul:'')"
    using init_directive_unregistered [OF d2 nf, of host_twice 0]
    by (simp add: ErrorProvider_char world_init_fields world_consul_def)
  have r: "InitFromEnvironment host_twice 0 world_init =
             Inl (Panic ''conflict on configuration provider: consul:'')"
    by (simp add: InitFromEnvironment_def env sp s1 s2)
  from env sp d1 d2 nf s1 s2 r world_init_fields(2) show ?thesis by simp
qed

text \<open>
  A source error can abort the caller. \<open>CONFIGURATION_FROM=vault,vault\<close> names an
  unregistered factory twice: the second directive registers the error provider under the
  name the first one took, and \<open>InitFromEnvironment\<close> panics. Likewise a second \<open>File\<close>
  of the same missing file panics.
\<close>

theorem C5_counterexample:
  "os_Getenv (Environ host_dup) ConfigEnvVar = ''vault,vault'' \<and>
   providerFactories world_init ''vault'' = None \<and>
   InitFromEnvironment host_dup 0 world_init =
     Inl (Panic ''conflict on configuration provider: vault:'') \<and>
   ReadFile host0 ''/etc/app.yaml'' = Inl (Error ''no such file or directory'') \<and>
   \<not> isl (Store_file host0 0 ''/etc/app.yaml'' False None world_init) \<and>
   Store_file host0 0 ''/etc/app.yaml'' False None
       (projr (Store_file host0 0 ''/etc/app.yaml'' False None world_init)) =
     Inl (Panic ''conflict on configuration provider: file:/etc/app.yaml'')"
proof -
  let ?e = "Some (Error ''failed to instantiate provider factory'')"
  let ?w1 = "upd_store 0 (\<lambda>st. st\<lparr>providers := (providers st)(''vault:'' \<mapsto> ErrorFn ?e)\<rparr>) world_init"
  have s1: "init_directive host_dup 0 ''vault'' world_init = Inr ?w1"
    using init_directive_unregistered [OF cfg_facts(7) world_init_fields(1), of host_dup 0]
    by (simp add: ErrorProvider_char world_init_fields)
  have s2: "init_directive host_dup 0 ''vault'' ?w1 =
              Inl (Panic ''conflict on configuration provider: vault:'')"
    using init_directive_unregistered [OF cfg_facts(7), of ?w1 host_dup 0]
    by (simp add: ErrorProvider_char world_init_fields)
  have a: "InitFromEnvironment host_dup 0 world_init =
     Inl (Panic ''conflict on configuration provider: vault:'')"
    by (simp add: InitFromEnvironment_def cfg_facts s1 s2)
  have rf: "ReadFile host0 ''/etc/app.yaml'' = Inl (Error ''no such file or directory'')"
    by (simp add: host0_def)
  let ?v1 = "upd_store 0 (\<lambda>st. st\<lparr>providers := (providers st)(''file:/etc/app.yaml'' \<mapsto>
                ErrorFn (Some (Error ''no such file or directory'')))\<rparr>) world_init"
  have f1: "Store_file host0 0 ''/etc/app.yaml'' False None world_init = Inr ?v1"
    by (simp add: Store_file_def readFile_def rf ErrorProvider_char world_init_fields)
  have f2: "Store_file host0 0 ''/etc/app.yaml'' False None ?v1 =
        Inl (Panic ''conflict on configuration provider: file:/etc/app.yaml'')"
    by (simp add: Store_file_def readFile_def rf ErrorProvider_char world_init_fields)
  from a rf f1 f2 cfg_facts(5) world_init_fields(1) show ?thesis by simp
qed

lemma readFile_Inl:
  "readFile h filename fn = Inl e \<longleftrightarrow>
     ReadFile h filename = Inl e \<or>
     (\<exists>b. ReadFile h filename = Inr b \<and>
          (case fn of Some f \<Rightarrow> f b | None \<Rightarrow> yaml_Unmarshal h b) = Inl e)"
  by (cases "ReadFile h filename") (simp_all add: readFile_def)

text \<open>
  C5, as the code has it. Every source error is turned into one call of \<open>ErrorProvider\<close>
  on the store the loader was called on, under a name fixed by the loader and its
  argument: \<open>file:<filename>\<close> for a file that cannot be read or decoded,
  \<open>filetree:<dirname>\<close> and \<open>filelist:<dirname>\<close> for a directory that cannot be listed,
  \<open>filetree:<dirname>\<close> for a tree that does not load (an unreadable entry or a directory
  nested too deep), \<open><factoryName>:<argument>\<close> for an unregistered factory. That call
  panics when the name is taken and override mode is off; otherwise it returns, the
  provider registered under the name fails with the error at every query, and nothing
  else changes.
\<close>

theorem C5_source_errors_become_error_providers:
  "(filename \<noteq> [] \<and> readFile h filename fn = Inl e \<longrightarrow>
      Store_file h s filename refresh fn w = ErrorProvider s (''file:'' @ filename) (Some e) w) \<and>
   (readFile h filename fn = Inl e \<longleftrightarrow>
      ReadFile h filename = Inl e \<or>
      (\<exists>b. ReadFile h filename = Inr b \<and>
           (case fn of Some f \<Rightarrow> f b | None \<Rightarrow> yaml_Unmarshal h b) = Inl e)) \<and>
   (dirname \<noteq> [] \<and> ReadDir h dirname = Inl e \<longrightarrow>
      FileTree h s dirname w = ErrorProvider s (''filetree:'' @ dirname) (Some e) w \<and>
      FileList h s dirname w = ErrorProvider s (''filelist:'' @ dirname) (Some e) w) \<and>
   (dirname \<noteq> [] \<and> ReadDir h dirname = Inr files \<and> \<not> tree_ok h dirname files \<longrightarrow>
      (\<exists>e'. FileTree h s dirname w = ErrorProvider s (''filetree:'' @ dirname) (Some e') w)) \<and>
   (directive_parts c = (name, arg) \<and> providerFactories w name = None \<longrightarrow>
      init_directive h s c w =
        ErrorProvider s (name @ '':'' @ arg)
          (Some (Error ''failed to instantiate provider factory'')) w) \<and>
   (\<forall>n err.
      (providers (stores w s) n \<noteq> None \<and> \<not> allowProviderOverride (stores w s) \<longrightarrow>
         ErrorProvider s n err w = Inl (Panic (''conflict on configuration provider: '' @ n))) \<and>
      (providers (stores w s) n = None \<or> allowProviderOverride (stores w s) \<longrightarrow>
         (\<exists>w'. ErrorProvider s n err w = Inr w' \<and>
               providers (stores w' s) n = Some (ErrorFn err) \<and>
               (\<forall>t m. t \<noteq> s \<or> m \<noteq> n \<longrightarrow> providers (stores w' t) m = providers (stores w t) m) \<and>
               inmems w' = inmems w))) \<and>
   (\<forall>h2 w2 err. call_provider h2 (ErrorFn err) w2 = Inr ((ItemList [], err), w2))"
proof -
  have a: "filename \<noteq> [] \<and> readFile h filename fn = Inl e \<longrightarrow>
      Store_file h s filename refresh fn w = ErrorProvider s (''file:'' @ filename) (Some e) w"
    by (simp add: Store_file_def Let_def)
  have b: "readFile h filename fn = Inl e \<longleftrightarrow>
      ReadFile h filename = Inl e \<or>
      (\<exists>b. ReadFile h filename = Inr b \<and>
           (case fn of Some f \<Rightarrow> f b | None \<Rightarrow> yaml_Unmarshal h b) = Inl e)"
    by (rule readFile_Inl)
  have c: "dirname \<noteq> [] \<and> ReadDir h dirname = Inl e \<longrightarrow>
      FileTree h s dirname w = ErrorProvider s (''filetree:'' @ dirname) (Some e) w \<and>
      FileList h s dirname w = ErrorProvider s (''filelist:'' @ dirname) (Some e) w"
    by (simp add: FileTree_def FileList_def Let_def)
  have d: "dirname \<noteq> [] \<and> ReadDir h dirname = Inr files \<and> \<not> tree_ok h dirname files \<longrightarrow>
      (\<exists>e'. FileTree h s dirname w = ErrorProvider s (''filetree:'' @ dirname) (Some e') w)"
    using FileTree_fail [of dirname h files s w] by blast
  have f: "directive_parts c = (name, arg) \<and> providerFactories w name = None \<longrightarrow>
      init_directive h s c w =
        ErrorProvider s (name @ '':'' @ arg)
          (Some (Error ''failed to instantiate provider factory'')) w"
    by (simp add: init_directive_unregistered)
  have g: "\<forall>n err.
      (providers (stores w s) n \<noteq> None \<and> \<not> allowProviderOverride (stores w s) \<longrightarrow>
         ErrorProvider s n err w = Inl (Panic (''conflict on configuration provider: '' @ n))) \<and>
      (providers (stores w s) n = None \<or> allowProviderOverride (stores w s) \<longrightarrow>
         (\<exists>w'. ErrorProvider s n err w = Inr w' \<and>
               providers (stores w' s) n = Some (ErrorFn err) \<and>
               (\<forall>t m. t \<noteq> s \<or> m \<noteq> n \<longrightarrow> providers (stores w' t) m = providers (stores w t) m) \<and>
               inmems w' = inmems w))"
    by (auto simp add: ErrorProvider_char upd_store_def)
  have i: "\<forall>h2 w2 err. call_provider h2 (ErrorFn err) w2 = Inr ((ItemList [], err), w2)"
    by (simp add: call_ErrorFn)
  show ?thesis
    by (intro conjI) (rule a b c d f g i)+
qed

theorem C5_witness:
  "readFile host0 ''/etc/app.yaml'' None = Inl (Error ''no such file or directory'') \<and>
   (\<exists>w'. Store_file host0 0 ''/etc/app.yaml'' False None world_init = Inr w' \<and>
      providers (stores w' 0) ''file:/etc/app.yaml'' =
        Some (ErrorFn (Some (Error ''no such file or directory''))) \<and>
      call_provider host0 (ErrorFn (Some (Error ''no such file or directory''))) w' =
        Inr ((ItemList [], Some (Error ''no such file or directory'')), w') \<and>
      inmems w' = [])"
proof -
  let ?e = "Error ''no such file or directory''"
  have rf: "readFile host0 ''/etc/app.yaml'' None = Inl ?e"
    by (simp add: readFile_def host0_def)
  note c5 = C5_source_errors_become_error_providers
              [of "''/etc/app.yaml''" host0 None ?e 0 False world_init]
  have ne: "''/etc/app.yaml'' \<noteq> []" by simp
  from c5 [THEN conjunct1] ne rf
  have sf: "Store_file host0 0 ''/etc/app.yaml'' False None world_init =
       ErrorProvider 0 (''file:'' @ ''/etc/app.yaml'') (Some ?e) world_init"
    by simp
  have free: "providers (stores world_init 0) (''file:'' @ ''/etc/app.yaml'') = None \<or>
              allowProviderOverride (stores world_init 0)"
    by (simp add: world_init_fields)
  note g = c5 [THEN conjunct2, THEN conjunct2, THEN conjunct2, THEN conjunct2, THEN conjunct2,
               THEN conjunct1, rule_format, of "''file:'' @ ''/etc/app.yaml''" "Some ?e"]
  from g [THEN conjunct2, rule_format, OF free] obtain w' where
    w': "ErrorProvider 0 (''file:'' @ ''/etc/app.yaml'') (Some ?e) world_init = Inr w'"
        "providers (stores w' 0) (''file:'' @ ''/etc/app.yaml'') = Some (ErrorFn (Some ?e))"
        "inmems w' = inmems world_init"
    by (elim exE conjE) (rule that; assumption)
  have q: "call_provider host0 (ErrorFn (Some ?e)) w' = Inr ((ItemList [], Some ?e), w')"
    by (simp add: call_ErrorFn)
  from rf sf w' q show ?thesis
    by (simp add: world_init_fields)
qed

end
